theory Spec2Isabelle
  imports Main
begin

section \<open>Outcomes of Python calls\<close>

text \<open>
  Strings are byte strings: a Python \<open>str\<close> is represented by its UTF-8 encoding, so
  that the text handed to \<open>write_text(..., encoding="utf-8")\<close> is the file's content
  byte for byte.

  A path is the list of its components below the output directory \<open>out_dir\<close>;
  the empty list is \<open>out_dir\<close> itself.
\<close>

type_synonym path = "string list"

text \<open>The \<open>ValueError\<close>s of \<open>str.format\<close>, by message.\<close>

datatype value_error =
    SingleClosingBrace      \<comment> \<open>Single '}' encountered in format string\<close>
  | SingleOpeningBrace      \<comment> \<open>Single '{' encountered in format string\<close>
  | ExpectedClosingBrace    \<comment> \<open>expected '}' before end of string\<close>
  | UnexpectedOpeningBrace  \<comment> \<open>unexpected '{' in field name\<close>
  | TooManyDecimalDigits    \<comment> \<open>Too many decimal digits in format string\<close>

datatype error =
    KeyError string
  | IndexError
  | ValueError value_error
  | RuntimeError string
  | FileExistsError path
  | FileNotFoundError path
  | NotADirectoryError path
  | IsADirectoryError path
  | RequestError string     \<comment> \<open>any exception of the \<open>requests\<close> library, by description\<close>

text \<open>
  A call returns a value, raises, is still inside the polling loop when the number of
  polls the model follows is used up, or leaves the modelled fragment of Python
  (format fields with conversions, format specifications, attribute or index access;
  names that are not plain file names; non-ASCII text where Unicode rules matter).
\<close>

datatype 'a outcome = Returns 'a | Raises error | StillPolling | Unmodelled

fun obind :: "'a outcome \<Rightarrow> ('a \<Rightarrow> 'b outcome) \<Rightarrow> 'b outcome" where
  "obind (Returns x) f = f x"
| "obind (Raises e) f = Raises e"
| "obind StillPolling f = StillPolling"
| "obind Unmodelled f = Unmodelled"

fun omap :: "('a \<Rightarrow> 'b) \<Rightarrow> 'a outcome \<Rightarrow> 'b outcome" where
  "omap f (Returns x) = Returns (f x)"
| "omap f (Raises e) = Raises e"
| "omap f StillPolling = StillPolling"
| "omap f Unmodelled = Unmodelled"

section \<open>Strings\<close>

definition is_ascii :: "char \<Rightarrow> bool" where
  "is_ascii c = (of_char c < (128::nat))"

definition is_digit :: "char \<Rightarrow> bool" where
  "is_digit c = (48 \<le> (of_char c :: nat) \<and> of_char c \<le> (57::nat))"

text \<open>\<open>str.lower()\<close> on ASCII text; the callers leave the model on other text.\<close>

definition lower_char :: "char \<Rightarrow> char" where
  "lower_char c =
     (case map_of (zip ''ABCDEFGHIJKLMNOPQRSTUVWXYZ'' ''abcdefghijklmnopqrstuvwxyz'') c of
        None \<Rightarrow> c
      | Some l \<Rightarrow> l)"

definition lower :: "string \<Rightarrow> string" where
  "lower s = map lower_char s"

text \<open>\<open>str(n)\<close> for an integer.\<close>

fun str_nat :: "nat \<Rightarrow> string" where
  "str_nat n = (if n < 10 then [''0123456789'' ! n]
                else str_nat (n div 10) @ [''0123456789'' ! (n mod 10)])"

declare str_nat.simps [simp del]

definition str_int :: "int \<Rightarrow> string" where
  "str_int i = (if i < 0 then CHR ''-'' # str_nat (nat (- i)) else str_nat (nat i))"

section \<open>\<open>str.format\<close> with keyword arguments only\<close>

text \<open>
  The template is read from left to right as CPython's \<open>MarkupIterator\<close> reads it:
  literal text, the escapes \<open>{{\<close> and \<open>}}\<close>, and replacement fields \<open>{name}\<close>.
  Reading stops at the end of the template, at a malformed brace, or at a field that
  is outside the modelled fragment (a conversion \<open>!\<close>, a format specification \<open>:\<close>,
  attribute access \<open>.\<close>, indexing \<open>[\<close>, or a non-ASCII byte in the name).
\<close>

datatype token = Literal char | Placeholder string

datatype stop = EndOfTemplate | Malformed value_error | Unsupported

fun parse_text :: "string \<Rightarrow> token list \<times> stop"
  and parse_field :: "string \<Rightarrow> string \<Rightarrow> token list \<times> stop" where
  "parse_text [] = ([], EndOfTemplate)"
| "parse_text (c # cs) =
     (if c = CHR ''{'' then
        (case cs of
           [] \<Rightarrow> ([], Malformed SingleOpeningBrace)
         | d # ds \<Rightarrow>
             if d = CHR ''{'' then (let (ts, s) = parse_text ds in (Literal CHR ''{'' # ts, s))
             else parse_field [] cs)
      else if c = CHR ''}'' then
        (case cs of
           [] \<Rightarrow> ([], Malformed SingleClosingBrace)
         | d # ds \<Rightarrow>
             if d = CHR ''}'' then (let (ts, s) = parse_text ds in (Literal CHR ''}'' # ts, s))
             else ([], Malformed SingleClosingBrace))
      else (let (ts, s) = parse_text cs in (Literal c # ts, s)))"
| "parse_field name [] = ([], Malformed ExpectedClosingBrace)"
| "parse_field name (c # cs) =
     (if c = CHR ''}'' then (let (ts, s) = parse_text cs in (Placeholder (rev name) # ts, s))
      else if c = CHR ''{'' then ([], Malformed UnexpectedOpeningBrace)
      else if c = CHR ''!'' \<or> c = CHR '':'' \<or> c = CHR ''.'' \<or> c = CHR ''[''
              \<or> \<not> is_ascii c then ([], Unsupported)
      else parse_field (c # name) cs)"

text \<open>
  \<open>get_integer\<close> of CPython's \<open>unicode_format.h\<close> on an ASCII name, for a 64-bit
  \<open>Py_ssize_t\<close>: the name is a positional index when it is made of decimal digits.
\<close>

datatype field_key = Keyword | Positional nat | Overflow

definition PY_SSIZE_T_MAX :: nat where
  "PY_SSIZE_T_MAX = 9223372036854775807"

fun get_integer_from :: "nat \<Rightarrow> string \<Rightarrow> field_key" where
  "get_integer_from acc [] = Positional acc"
| "get_integer_from acc (c # cs) =
     (if \<not> is_digit c then Keyword
      else (let d = of_char c - (48::nat) in
            if acc > (PY_SSIZE_T_MAX - d) div 10 then Overflow
            else get_integer_from (acc * 10 + d) cs))"

definition get_integer :: "string \<Rightarrow> field_key" where
  "get_integer name = (if name = [] then Keyword else get_integer_from 0 name)"

text \<open>
  Looking a field up: no positional arguments are passed, so the empty name (automatic
  numbering) and every index raise \<open>IndexError\<close>; a keyword that is not passed raises
  \<open>KeyError\<close>.
\<close>

definition get_field :: "(string \<times> string) list \<Rightarrow> string \<Rightarrow> string outcome" where
  "get_field kwargs name =
     (if name = [] then Raises IndexError
      else case get_integer name of
             Overflow \<Rightarrow> Raises (ValueError TooManyDecimalDigits)
           | Positional i \<Rightarrow> Raises IndexError
           | Keyword \<Rightarrow> (case map_of kwargs name of
                           None \<Rightarrow> Raises (KeyError name)
                         | Some v \<Rightarrow> Returns v))"

fun render_tokens :: "(string \<times> string) list \<Rightarrow> token list \<Rightarrow> stop \<Rightarrow> string outcome" where
  "render_tokens kwargs [] EndOfTemplate = Returns []"
| "render_tokens kwargs [] (Malformed e) = Raises (ValueError e)"
| "render_tokens kwargs [] Unsupported = Unmodelled"
| "render_tokens kwargs (Literal c # ts) s = omap (\<lambda>r. c # r) (render_tokens kwargs ts s)"
| "render_tokens kwargs (Placeholder n # ts) s =
     obind (get_field kwargs n) (\<lambda>v. omap (\<lambda>r. v @ r) (render_tokens kwargs ts s))"

definition format :: "string \<Rightarrow> (string \<times> string) list \<Rightarrow> string outcome" where
  "format template kwargs = (case parse_text template of (ts, s) \<Rightarrow> render_tokens kwargs ts s)"

section \<open>Data models\<close>

record RenderSpec =
  aspect_ratio :: string
  seconds :: int
  fps :: int
  seed :: "int option"

definition RenderSpec_default :: RenderSpec where
  "RenderSpec_default = \<lparr>aspect_ratio = ''9:16'', seconds = 8, fps = 24, seed = None\<rparr>"

record SceneSpec =
  sign :: string
  script_text :: string
  prompt :: string
  render :: RenderSpec
  style_tag :: string

record VideoJob =
  job_id :: string
  scene :: SceneSpec
  status :: string
  video_path :: "path option"

section \<open>Prompt template and transformers\<close>

definition DEFAULT_TEMPLATE :: string where
  "DEFAULT_TEMPLATE =
     ''Cinematic {aspect} shot. Theme: whimsical astrology vlog in a cozy neon-lit studio. '' @
     ''Foreground: narrator presence implied via over-the-shoulder framing or empty chair, '' @
     ''floating holographic zodiac glyphs for {sign}. Ambient particle dust. Soft volumetric '' @
     ''light through blinds. Camera: slow push-in, shallow depth of field. '' @
     ''Color palette: muted teal, soft gold highlights. '' @
     ''On-screen caption (subtitle style): '{caption}'. '' @
     ''Keep timing readable for {seconds}s.''"

type_synonym PromptTransformer = "string \<Rightarrow> SceneSpec \<Rightarrow> string"

definition IdentityTransformer :: PromptTransformer where
  "IdentityTransformer p sc = p"

definition CyberpunkPunchup :: PromptTransformer where
  "CyberpunkPunchup p sc =
     (let addon = '' Add neon signage in the distance, subtle rain streaks, and UI scanlines.''
      in p @ addon)"

section \<open>Scene planner\<close>

record ScenePlanner =
  planner_render :: RenderSpec
  planner_style_tag :: string

definition ScenePlanner_init :: "RenderSpec \<Rightarrow> string \<Rightarrow> ScenePlanner" where
  "ScenePlanner_init r st = \<lparr>planner_render = r, planner_style_tag = st\<rparr>"

definition scene_kwargs :: "ScenePlanner \<Rightarrow> string \<Rightarrow> string \<Rightarrow> (string \<times> string) list" where
  "scene_kwargs self sg text =
     [(''aspect'', aspect_ratio (planner_render self)),
      (''sign'', sg),
      (''caption'', text),
      (''seconds'', str_int (seconds (planner_render self)))]"

definition build_scene :: "ScenePlanner \<Rightarrow> string \<Rightarrow> string \<Rightarrow> string \<Rightarrow> SceneSpec outcome" where
  "build_scene self sg text template =
     obind (format template (scene_kwargs self sg text))
       (\<lambda>p. Returns \<lparr>sign = sg, script_text = text, prompt = p,
                     render = planner_render self, style_tag = planner_style_tag self\<rparr>)"

section \<open>The output directory, the clock and the trace of effects\<close>

text \<open>
  One entry of the manifest's \<open>jobs\<close> list (the JSON keys \<open>id\<close>, \<open>sign\<close>, \<open>status\<close>,
  \<open>style\<close>, \<open>video_path\<close>, \<open>prompt_file\<close>) and the manifest itself (\<open>date\<close>,
  \<open>aspect_ratio\<close>, \<open>seconds\<close>, \<open>jobs\<close>). A \<open>video_path\<close> of \<open>None\<close> is JSON \<open>null\<close>.
\<close>

record job_summary =
  js_id :: string
  js_sign :: string
  js_status :: string
  js_style :: string
  js_video_path :: "path option"
  js_prompt_file :: string

record manifest =
  m_date :: string
  m_aspect_ratio :: string
  m_seconds :: int
  m_jobs :: "job_summary list"

text \<open>
  A file holds text, downloaded bytes, or the JSON document that \<open>json.dumps\<close> makes of
  a manifest (kept as the manifest it serialises).
\<close>

datatype content = Text string | Bytes string | Json manifest

datatype node = Dir | File content

datatype event =
    EvMkdir path              \<comment> \<open>a \<open>mkdir\<close> call that returned\<close>
  | EvWrite path content      \<comment> \<open>a file written\<close>
  | EvRequest string          \<comment> \<open>an HTTP request sent\<close>
  | EvSleep nat               \<comment> \<open>\<open>time.sleep\<close>\<close>
  | EvSubmitted string        \<comment> \<open>\<open>submit\<close> returned the job with this id\<close>
  | EvTerminal string string  \<comment> \<open>\<open>poll_until_done\<close> returned the job (id, status)\<close>

text \<open>
  The world a run acts on: the tree below \<open>out_dir\<close>, the effects so far in order, and the
  clock: \<open>timeline w k\<close> is what the \<open>k\<close>-th reading of
  \<open>int(dt.datetime.utcnow().timestamp())\<close> yields.
\<close>

record world =
  fs :: "path \<Rightarrow> node option"
  trace :: "event list"
  timeline :: "nat \<Rightarrow> int"
  clock_reads :: nat

definition log_event :: "event \<Rightarrow> world \<Rightarrow> world" where
  "log_event e w = w\<lparr>trace := trace w @ [e]\<rparr>"

definition utcnow_timestamp :: "world \<Rightarrow> int \<times> world" where
  "utcnow_timestamp w = (timeline w (clock_reads w), w\<lparr>clock_reads := Suc (clock_reads w)\<rparr>)"

text \<open>
  A string that is one plain file name: \<open>out_dir / "prompts" / name\<close> then has exactly
  one more component. Other names are outside the model.
\<close>

definition valid_name :: "string \<Rightarrow> bool" where
  "valid_name s = (s \<noteq> [] \<and> CHR ''/'' \<notin> set s \<and> CHR 0x00 \<notin> set s
                   \<and> s \<noteq> ''.'' \<and> s \<noteq> ''..'' \<and> length s \<le> 255)"

text \<open>\<open>Path.mkdir(exist_ok=True)\<close> below \<open>out_dir\<close>.\<close>

definition mkdir :: "path \<Rightarrow> world \<Rightarrow> world outcome" where
  "mkdir p w =
     (if p = [] \<or> \<not> valid_name (last p) then Unmodelled
      else case fs w (butlast p) of
             None \<Rightarrow> Raises (FileNotFoundError p)
           | Some (File c) \<Rightarrow> Raises (NotADirectoryError p)
           | Some Dir \<Rightarrow>
               (case fs w p of
                  None \<Rightarrow> Returns (log_event (EvMkdir p) (w\<lparr>fs := (fs w)(p \<mapsto> Dir)\<rparr>))
                | Some Dir \<Rightarrow> Returns (log_event (EvMkdir p) w)
                | Some (File c) \<Rightarrow> Raises (FileExistsError p)))"

text \<open>
  \<open>Path.mkdir(parents=True, exist_ok=True)\<close>: a missing parent is created first, in the
  same way. The ancestors of \<open>out_dir\<close> itself are outside the model and taken to be
  creatable.
\<close>

function mkdir_parents :: "path \<Rightarrow> world \<Rightarrow> world outcome" where
  "mkdir_parents p w =
     (if p = [] then
        (case fs w [] of
           None \<Rightarrow> Returns (log_event (EvMkdir []) (w\<lparr>fs := (fs w)([] \<mapsto> Dir)\<rparr>))
         | Some Dir \<Rightarrow> Returns (log_event (EvMkdir []) w)
         | Some (File c) \<Rightarrow> Raises (FileExistsError []))
      else
        (case fs w (butlast p) of
           None \<Rightarrow> obind (mkdir_parents (butlast p) w) (mkdir p)
         | Some n \<Rightarrow> mkdir p w))"
  by pat_completeness auto
termination
  by (relation "measure (\<lambda>(p, w). length p)") auto

declare mkdir_parents.simps [simp del]

text \<open>\<open>Path.write_text\<close> and writing a file opened with \<open>"wb"\<close>.\<close>

definition write_file :: "path \<Rightarrow> content \<Rightarrow> world \<Rightarrow> world outcome" where
  "write_file p c w =
     (if p = [] \<or> \<not> valid_name (last p) then Unmodelled
      else case fs w (butlast p) of
             None \<Rightarrow> Raises (FileNotFoundError p)
           | Some (File x) \<Rightarrow> Raises (NotADirectoryError p)
           | Some Dir \<Rightarrow>
               (case fs w p of
                  Some Dir \<Rightarrow> Raises (IsADirectoryError p)
                | _ \<Rightarrow> Returns (log_event (EvWrite p c) (w\<lparr>fs := (fs w)(p \<mapsto> File c)\<rparr>))))"

definition write_text :: "path \<Rightarrow> string \<Rightarrow> world \<Rightarrow> world outcome" where
  "write_text p s w = write_file p (Text s) w"

section \<open>The two \<open>VeoClient\<close> classes\<close>

text \<open>
  The module defines \<open>class VeoClient\<close> twice. The first calls the remote service; the
  second, a stub, rebinds the name, so \<open>VeoClient()\<close> in \<open>main\<close> makes a stub.

  The remote service as the first class sees it: what the POST answers for a scene, what
  the \<open>k\<close>-th GET on an operation answers, and what the GET on a video URL answers.
  A request either raises (a transport failure, \<open>raise_for_status\<close>, a body that is not
  JSON) or yields the parts of the JSON body the code reads.
\<close>

datatype submit_reply = SubmitRaises string | SubmitJson "string option"
  \<comment> \<open>the body's \<open>"name"\<close> entry, if it has one\<close>

datatype poll_reply = PollRaises string | PollJson bool "string option"
  \<comment> \<open>the truth value of \<open>data.get("done", False)\<close> and the \<open>"videoUri"\<close> of \<open>"response"\<close>\<close>

datatype download_reply = DownloadRaises string | DownloadBody string

record remote =
  post_generateVideo :: "SceneSpec \<Rightarrow> submit_reply"
  get_operation :: "string \<Rightarrow> nat \<Rightarrow> poll_reply"
  get_video :: "string \<Rightarrow> download_reply"

text \<open>
  A client object: its class and its \<open>api_key\<close>. A client of the first class also
  carries the service it talks to and the number of polls the model follows before
  answering \<open>StillPolling\<close>.
\<close>

datatype VeoClient = LiveVeoClient string remote nat | StubVeoClient string

text \<open>\<open>os.environ\<close>, after \<open>load_dotenv()\<close>.\<close>

type_synonym environ = "string \<Rightarrow> string option"

definition truthy :: "string option \<Rightarrow> bool" where
  "truthy v = (case v of None \<Rightarrow> False | Some s \<Rightarrow> s \<noteq> [])"

text \<open>
  First class: \<open>api_key or os.getenv("VEO_API_KEY")\<close>, and a \<open>RuntimeError\<close> without one.
  The dash of its message is three UTF-8 bytes.
\<close>

definition VEO_API_KEY_MISSING :: string where
  "VEO_API_KEY_MISSING =
     ''VEO_API_KEY missing '' @ [CHR 0xE2, CHR 0x80, CHR 0x94] @ '' add it to your .env''"

definition VeoClient_init_first ::
  "string option \<Rightarrow> environ \<Rightarrow> remote \<Rightarrow> nat \<Rightarrow> VeoClient outcome" where
  "VeoClient_init_first api_key env srv polls =
     (let key = (if truthy api_key then api_key else env ''VEO_API_KEY'') in
      if \<not> truthy key then Raises (RuntimeError VEO_API_KEY_MISSING)
      else Returns (LiveVeoClient (the key) srv polls))"

text \<open>Second class: \<open>api_key or os.getenv("VEO_API_KEY", "demo-key")\<close>.\<close>

definition VeoClient_init :: "string option \<Rightarrow> environ \<Rightarrow> VeoClient outcome" where
  "VeoClient_init api_key env =
     Returns (StubVeoClient
       (if truthy api_key then the api_key
        else case env ''VEO_API_KEY'' of None \<Rightarrow> ''demo-key'' | Some v \<Rightarrow> v))"

definition new_job :: "string \<Rightarrow> SceneSpec \<Rightarrow> VideoJob" where
  "new_job i sc = \<lparr>job_id = i, scene = sc, status = ''queued'', video_path = None\<rparr>"

text \<open>First class, \<open>submit\<close>: one POST; the job id is the body's \<open>"name"\<close>.\<close>

definition submit_first :: "remote \<Rightarrow> SceneSpec \<Rightarrow> world \<Rightarrow> (VideoJob \<times> world) outcome" where
  "submit_first srv sc w =
     (let w1 = log_event (EvRequest ''POST generateVideo'') w in
      case post_generateVideo srv sc of
        SubmitRaises d \<Rightarrow> Raises (RequestError d)
      | SubmitJson None \<Rightarrow> Raises (KeyError ''name'')
      | SubmitJson (Some i) \<Rightarrow> Returns (new_job i sc, log_event (EvSubmitted i) w1))"

text \<open>
  First class, \<open>poll_until_done\<close>: the \<open>while True\<close> loop, one GET per round and a sleep
  of five seconds between rounds. \<open>k\<close> counts the rounds made.
\<close>

fun poll_loop :: "nat \<Rightarrow> nat \<Rightarrow> remote \<Rightarrow> VideoJob \<Rightarrow> world \<Rightarrow> (VideoJob \<times> world) outcome" where
  "poll_loop 0 k srv job w = StillPolling"
| "poll_loop (Suc n) k srv job w =
     (let w1 = log_event (EvRequest (''GET operations/'' @ job_id job)) w in
      case get_operation srv (job_id job) k of
        PollRaises d \<Rightarrow> Raises (RequestError d)
      | PollJson done video_url \<Rightarrow>
          if done then
            (if \<not> truthy video_url then
               Returns (job\<lparr>status := ''failed''\<rparr>,
                        log_event (EvTerminal (job_id job) ''failed'') w1)
             else if CHR ''/'' \<in> set (job_id job) then Unmodelled
             else
               obind (mkdir_parents [''renders''] w1) (\<lambda>w2.
                 let p = [''renders'', job_id job @ ''.mp4''];
                     w3 = log_event (EvRequest (''GET '' @ the video_url)) w2 in
                 case get_video srv (the video_url) of
                   DownloadRaises d \<Rightarrow> Raises (RequestError d)
                 | DownloadBody b \<Rightarrow>
                     obind (write_file p (Bytes b) w3) (\<lambda>w4.
                       Returns (job\<lparr>video_path := Some p, status := ''done''\<rparr>,
                                log_event (EvTerminal (job_id job) ''done'') w4))))
          else poll_loop n (Suc k) srv job (log_event (EvSleep 5) w1))"

text \<open>
  Second class, \<open>submit\<close>: no request; the id is made of the lowered sign and the clock.
\<close>

definition submit_stub :: "SceneSpec \<Rightarrow> world \<Rightarrow> (VideoJob \<times> world) outcome" where
  "submit_stub sc w =
     (if \<not> list_all is_ascii (sign sc) then Unmodelled
      else (let (t, w1) = utcnow_timestamp w;
                i = ''veo_'' @ lower (sign sc) @ ''_'' @ str_int t
            in Returns (new_job i sc, log_event (EvSubmitted i) w1)))"

text \<open>
  Second class, \<open>poll_until_done\<close>: makes sure \<open>renders\<close> exists, names a path in it and
  sets the status; it neither polls nor writes the file it names.
\<close>

definition poll_until_done_stub :: "VideoJob \<Rightarrow> world \<Rightarrow> (VideoJob \<times> world) outcome" where
  "poll_until_done_stub job w =
     obind (mkdir_parents [''renders''] w) (\<lambda>w1.
       if CHR ''/'' \<in> set (job_id job) then Unmodelled
       else Returns (job\<lparr>video_path := Some [''renders'', job_id job @ ''.mp4''], status := ''done''\<rparr>,
                     log_event (EvTerminal (job_id job) ''done'') w1))"

fun submit :: "VeoClient \<Rightarrow> SceneSpec \<Rightarrow> world \<Rightarrow> (VideoJob \<times> world) outcome" where
  "submit (LiveVeoClient key srv polls) sc w = submit_first srv sc w"
| "submit (StubVeoClient key) sc w = submit_stub sc w"

fun poll_until_done :: "VeoClient \<Rightarrow> VideoJob \<Rightarrow> world \<Rightarrow> (VideoJob \<times> world) outcome" where
  "poll_until_done (LiveVeoClient key srv polls) job w = poll_loop polls 0 srv job w"
| "poll_until_done (StubVeoClient key) job w = poll_until_done_stub job w"

section \<open>The horoscope generator\<close>

text \<open>
  \<open>generate_daily_horoscopes(date)\<close> returns a dict with one entry per zodiac sign, in
  this order, whichever of its two definitions is in use. A run takes the returned dict
  as its list of items. The fallback definition of the pipeline module is modelled
  below; \<open>date_str\<close> is what \<open>strftime("%B %d, %Y")\<close> made of the date, and the dash of
  the text is its three UTF-8 bytes.
\<close>

definition ZODIAC_SIGNS :: "string list" where
  "ZODIAC_SIGNS =
     [''Aries'', ''Taurus'', ''Gemini'', ''Cancer'', ''Leo'', ''Virgo'',
      ''Libra'', ''Scorpio'', ''Sagittarius'', ''Capricorn'', ''Aquarius'', ''Pisces'']"

definition generate_daily_horoscopes :: "string \<Rightarrow> (string \<times> string) list" where
  "generate_daily_horoscopes date_str =
     map (\<lambda>sg. (sg, sg @ '': '' @ date_str @ '' is your lucky day '' @
                     [CHR 0xE2, CHR 0x80, CHR 0x94] @ '' test horoscope only.''))
       ZODIAC_SIGNS"

section \<open>Dates\<close>

record date =
  year :: nat
  month :: nat
  day :: nat

definition zero_pad :: "nat \<Rightarrow> string \<Rightarrow> string" where
  "zero_pad n s = replicate (n - length s) CHR ''0'' @ s"

definition isoformat :: "date \<Rightarrow> string" where
  "isoformat d =
     zero_pad 4 (str_nat (year d)) @ ''-'' @ zero_pad 2 (str_nat (month d)) @ ''-'' @
     zero_pad 2 (str_nat (day d))"

section \<open>Orchestrator\<close>

record HoroscopeVeoPipeline =
  veo :: VeoClient
  transformers :: "PromptTransformer list"

text \<open>\<open>transformers or [IdentityTransformer()]\<close>: \<open>None\<close> and the empty list are both falsy.\<close>

definition HoroscopeVeoPipeline_init ::
  "VeoClient \<Rightarrow> PromptTransformer list option \<Rightarrow> HoroscopeVeoPipeline" where
  "HoroscopeVeoPipeline_init v ts =
     \<lparr>veo = v,
      transformers = (case ts of None \<Rightarrow> [IdentityTransformer]
                      | Some [] \<Rightarrow> [IdentityTransformer]
                      | Some l \<Rightarrow> l)\<rparr>"

text \<open>The list comprehension over \<open>scripts.items()\<close>: the first failing \<open>build_scene\<close> raises.\<close>

fun build_scenes :: "ScenePlanner \<Rightarrow> (string \<times> string) list \<Rightarrow> string \<Rightarrow> SceneSpec list outcome" where
  "build_scenes planner [] template = Returns []"
| "build_scenes planner ((sg, text) # rest) template =
     obind (build_scene planner sg text template) (\<lambda>sc.
       omap (\<lambda>scs. sc # scs) (build_scenes planner rest template))"

text \<open>
  \<open>for t in self.transformers: scene.prompt = t(scene.prompt, scene)\<close>: every transformer
  is called with the scene object as it is at that moment, its \<open>prompt\<close> already assigned
  by the transformers before it.
\<close>

fun apply_transformers :: "PromptTransformer list \<Rightarrow> SceneSpec \<Rightarrow> SceneSpec" where
  "apply_transformers [] sc = sc"
| "apply_transformers (t # ts) sc = apply_transformers ts (sc\<lparr>prompt := t (prompt sc) sc\<rparr>)"

definition prompt_path :: "SceneSpec \<Rightarrow> path" where
  "prompt_path sc = [''prompts'', sign sc @ ''.txt'']"

text \<open>First loop of \<open>run\<close>: transform each scene and write its prompt file.\<close>

fun persist_prompts ::
  "PromptTransformer list \<Rightarrow> SceneSpec list \<Rightarrow> world \<Rightarrow> (SceneSpec list \<times> world) outcome" where
  "persist_prompts ts [] w = Returns ([], w)"
| "persist_prompts ts (sc # scs) w =
     (let sc' = apply_transformers ts sc in
      obind (write_text (prompt_path sc') (prompt sc') w) (\<lambda>w1.
        omap (\<lambda>(scs', w2). (sc' # scs', w2)) (persist_prompts ts scs w1)))"

text \<open>Second loop of \<open>run\<close>: submit a job, poll it, append it; then the next scene.\<close>

fun process_jobs :: "VeoClient \<Rightarrow> SceneSpec list \<Rightarrow> world \<Rightarrow> (VideoJob list \<times> world) outcome" where
  "process_jobs v [] w = Returns ([], w)"
| "process_jobs v (sc # scs) w =
     obind (submit v sc w) (\<lambda>(job, w1).
       obind (poll_until_done v job w1) (\<lambda>(job', w2).
         omap (\<lambda>(jobs, w3). (job' # jobs, w3)) (process_jobs v scs w2)))"

definition summary :: "VideoJob \<Rightarrow> job_summary" where
  "summary j =
     \<lparr>js_id = job_id j,
      js_sign = sign (scene j),
      js_status = status j,
      js_style = style_tag (scene j),
      js_video_path = video_path j,
      js_prompt_file = ''prompts/'' @ sign (scene j) @ ''.txt''\<rparr>"

definition make_manifest :: "date \<Rightarrow> RenderSpec \<Rightarrow> VideoJob list \<Rightarrow> manifest" where
  "make_manifest d r jobs =
     \<lparr>m_date = isoformat d,
      m_aspect_ratio = aspect_ratio r,
      m_seconds = seconds r,
      m_jobs = map summary jobs\<rparr>"

text \<open>
  \<open>HoroscopeVeoPipeline.run\<close>. \<open>scripts\<close> is what \<open>generate_daily_horoscopes(date)\<close>
  returned.
\<close>

definition run ::
  "HoroscopeVeoPipeline \<Rightarrow> (string \<times> string) list \<Rightarrow> date \<Rightarrow> RenderSpec \<Rightarrow> string \<Rightarrow> string
     \<Rightarrow> world \<Rightarrow> (VideoJob list \<times> world) outcome" where
  "run self scripts d r template style w =
     obind (mkdir_parents [] w) (\<lambda>w1.
     obind (mkdir [''prompts''] w1) (\<lambda>w2.
     obind (mkdir [''renders''] w2) (\<lambda>w3.
     obind (build_scenes (ScenePlanner_init r style) scripts template) (\<lambda>scenes.
     obind (persist_prompts (transformers self) scenes w3) (\<lambda>(scenes', w4).
     obind (process_jobs (veo self) scenes' w4) (\<lambda>(jobs, w5).
     obind (write_file [''manifest.json''] (Json (make_manifest d r jobs)) w5) (\<lambda>w6.
       Returns (jobs, w6))))))))"

section \<open>Command line\<close>

text \<open>
  The parsed arguments; \<open>arg_date\<close> is the date that \<open>strptime\<close> read from \<open>--date\<close>, if
  the option was given. \<open>--out\<close> names the directory that the world describes.
\<close>

record args =
  arg_date :: "date option"
  arg_aspect :: string
  arg_fps :: int
  arg_style :: string
  arg_cyberpunk :: bool

definition build_transformers :: "args \<Rightarrow> PromptTransformer list" where
  "build_transformers a =
     [IdentityTransformer] @ (if arg_cyberpunk a then [CyberpunkPunchup] else [])"

text \<open>
  \<open>main\<close>, up to the printed summary: it returns the number printed as \<open>completed\<close>.
  \<open>today\<close> is \<open>dt.date.today()\<close>.
\<close>

definition main ::
  "args \<Rightarrow> environ \<Rightarrow> date \<Rightarrow> (string \<times> string) list \<Rightarrow> world \<Rightarrow> (nat \<times> world) outcome" where
  "main a env today scripts w =
     (let d = (case arg_date a of Some x \<Rightarrow> x | None \<Rightarrow> today);
          r = RenderSpec_default\<lparr>aspect_ratio := arg_aspect a, fps := arg_fps a\<rparr>;
          ts = build_transformers a
      in obind (VeoClient_init None env) (\<lambda>v.
           omap (\<lambda>(jobs, w'). (length jobs, w'))
             (run (HoroscopeVeoPipeline_init v (Some ts)) scripts d r DEFAULT_TEMPLATE (arg_style a) w)))"

section \<open>Notions used to state the properties\<close>

text \<open>
  The keyword arguments that \<open>build_scene\<close> passes to \<open>format\<close>, the placeholders of
  a token list, the exceptions that \<open>str.format\<close> raises (the specification's
  \<open>FormatError\<close>), and the template with its placeholders replaced.
\<close>

definition recognized :: "string list" where
  "recognized = [''aspect'', ''sign'', ''caption'', ''seconds'']"

fun placeholders :: "token list \<Rightarrow> string list" where
  "placeholders [] = []"
| "placeholders (Literal c # ts) = placeholders ts"
| "placeholders (Placeholder n # ts) = n # placeholders ts"

fun is_format_error :: "error \<Rightarrow> bool" where
  "is_format_error (KeyError n) = True"
| "is_format_error IndexError = True"
| "is_format_error (ValueError v) = True"
| "is_format_error e = False"

definition field_value :: "ScenePlanner \<Rightarrow> string \<Rightarrow> string \<Rightarrow> string \<Rightarrow> string" where
  "field_value self sg text n =
     (if n = ''aspect'' then aspect_ratio (planner_render self)
      else if n = ''sign'' then sg
      else if n = ''caption'' then text
      else str_int (seconds (planner_render self)))"

fun substitute :: "ScenePlanner \<Rightarrow> string \<Rightarrow> string \<Rightarrow> token \<Rightarrow> string" where
  "substitute self sg text (Literal c) = [c]"
| "substitute self sg text (Placeholder n) = field_value self sg text n"

text \<open>
  \<open>occurs_in xs ys\<close> is Python's \<open>xs in ys\<close> on strings.
\<close>

fun starts_with :: "string \<Rightarrow> string \<Rightarrow> bool" where
  "starts_with [] ys = True"
| "starts_with (x # xs) [] = False"
| "starts_with (x # xs) (y # ys) = (x = y \<and> starts_with xs ys)"

fun occurs_in :: "string \<Rightarrow> string \<Rightarrow> bool" where
  "occurs_in xs [] = (xs = [])"
| "occurs_in xs (y # ys) = (starts_with xs (y # ys) \<or> occurs_in xs ys)"

text \<open>The tokens of \<open>DEFAULT_TEMPLATE\<close>.\<close>

definition DEFAULT_TOKENS :: "token list" where
  "DEFAULT_TOKENS =
     map Literal ''Cinematic '' @ [Placeholder ''aspect''] @
     map Literal ('' shot. Theme: whimsical astrology vlog in a cozy neon-lit studio. '' @
       ''Foreground: narrator presence implied via over-the-shoulder framing or empty chair, '' @
       ''floating holographic zodiac glyphs for '') @ [Placeholder ''sign''] @
     map Literal (''. Ambient particle dust. Soft volumetric '' @
       ''light through blinds. Camera: slow push-in, shallow depth of field. '' @
       ''Color palette: muted teal, soft gold highlights. '' @
       ''On-screen caption (subtitle style): '' @ [CHR 0x27]) @ [Placeholder ''caption''] @
     map Literal (CHR 0x27 # ''. Keep timing readable for '') @ [Placeholder ''seconds''] @
     map Literal ''s.''"

definition DEFAULT_PLANNER :: ScenePlanner where
  "DEFAULT_PLANNER = ScenePlanner_init RenderSpec_default ''whimsical_astrology''"

section \<open>Worlds after a run of the stub client\<close>

text \<open>
  The effect of a \<open>mkdir\<close> and of a write that succeed, and the condition on the output
  directory under which the file operations of a run succeed: \<open>out_dir\<close>, \<open>prompts\<close>
  and \<open>renders\<close> are absent or directories, and no directory stands where the manifest
  or a prompt file goes. A sign is safe when it is ASCII and \<open><sign>.txt\<close> is a plain
  file name.
\<close>

definition made_dir :: "path \<Rightarrow> world \<Rightarrow> world" where
  "made_dir p w = log_event (EvMkdir p) (w\<lparr>fs := (fs w)(p \<mapsto> Dir)\<rparr>)"

definition wrote :: "path \<Rightarrow> content \<Rightarrow> world \<Rightarrow> world" where
  "wrote p c w = log_event (EvWrite p c) (w\<lparr>fs := (fs w)(p \<mapsto> File c)\<rparr>)"

definition absent_or_dir :: "node option \<Rightarrow> bool" where
  "absent_or_dir n = (n = None \<or> n = Some Dir)"

definition safe_sign :: "string \<Rightarrow> bool" where
  "safe_sign s = (list_all is_ascii s \<and> valid_name (s @ ''.txt''))"

definition ready :: "world \<Rightarrow> string list \<Rightarrow> bool" where
  "ready w signs =
     (absent_or_dir (fs w []) \<and> absent_or_dir (fs w [''prompts''])
      \<and> absent_or_dir (fs w [''renders'']) \<and> fs w [''manifest.json''] \<noteq> Some Dir
      \<and> list_all (\<lambda>s. fs w [''prompts'', s @ ''.txt''] \<noteq> Some Dir) signs)"

text \<open>
  Closed forms of what the loops of \<open>run\<close> yield with the stub client; the lemmas
  \<open>persist_prompts_ok\<close>, \<open>process_jobs_stub_ok\<close> and \<open>run_stub_ok\<close> prove that \<open>run\<close>
  returns them.
\<close>

fun prompts_written :: "SceneSpec list \<Rightarrow> world \<Rightarrow> world" where
  "prompts_written [] w = w"
| "prompts_written (sc # scs) w = prompts_written scs (wrote (prompt_path sc) (Text (prompt sc)) w)"

definition stub_job :: "int \<Rightarrow> SceneSpec \<Rightarrow> VideoJob" where
  "stub_job t sc =
     \<lparr>job_id = ''veo_'' @ lower (sign sc) @ ''_'' @ str_int t, scene = sc, status = ''done'',
      video_path = Some [''renders'', ''veo_'' @ lower (sign sc) @ ''_'' @ str_int t @ ''.mp4'']\<rparr>"

fun stub_jobs :: "(nat \<Rightarrow> int) \<Rightarrow> nat \<Rightarrow> SceneSpec list \<Rightarrow> VideoJob list" where
  "stub_jobs tm k [] = []"
| "stub_jobs tm k (sc # scs) = stub_job (tm k) sc # stub_jobs tm (Suc k) scs"

definition job_events :: "VideoJob \<Rightarrow> event list" where
  "job_events j = [EvSubmitted (job_id j), EvMkdir [''renders''], EvTerminal (job_id j) (status j)]"

definition jobs_done :: "VideoJob list \<Rightarrow> world \<Rightarrow> world" where
  "jobs_done jobs w =
     w\<lparr>trace := trace w @ concat (map job_events jobs),
       clock_reads := clock_reads w + length jobs\<rparr>"

definition planned_scenes ::
  "RenderSpec \<Rightarrow> string \<Rightarrow> (string \<times> string) list \<Rightarrow> token list \<Rightarrow> SceneSpec list" where
  "planned_scenes r style scripts ts =
     map (\<lambda>(sg, text).
            \<lparr>sign = sg, script_text = text,
             prompt = concat (map (substitute (ScenePlanner_init r style) sg text) ts),
             render = r, style_tag = style\<rparr>) scripts"

definition final_scenes ::
  "PromptTransformer list \<Rightarrow> RenderSpec \<Rightarrow> string \<Rightarrow> (string \<times> string) list \<Rightarrow> token list
     \<Rightarrow> SceneSpec list" where
  "final_scenes trs r style scripts ts = map (apply_transformers trs) (planned_scenes r style scripts ts)"

definition dirs_made :: "world \<Rightarrow> world" where
  "dirs_made w = made_dir [''renders''] (made_dir [''prompts''] (made_dir [] w))"

definition stub_run_world ::
  "date \<Rightarrow> RenderSpec \<Rightarrow> SceneSpec list \<Rightarrow> world \<Rightarrow> world" where
  "stub_run_world d r scenes w =
     wrote [''manifest.json'']
       (Json (make_manifest d r (stub_jobs (timeline w) (clock_reads w) scenes)))
       (jobs_done (stub_jobs (timeline w) (clock_reads w) scenes)
          (prompts_written scenes (dirs_made w)))"

section \<open>Events and files of a run\<close>

text \<open>
  The paths of the files written by a list of events, the events a run added to the
  trace, and the requests in the trace.
\<close>

fun written_paths :: "event list \<Rightarrow> path list" where
  "written_paths [] = []"
| "written_paths (EvWrite p c # es) = p # written_paths es"
| "written_paths (e # es) = written_paths es"

definition new_events :: "world \<Rightarrow> world \<Rightarrow> event list" where
  "new_events w w' = drop (length (trace w)) (trace w')"

fun is_request :: "event \<Rightarrow> bool" where
  "is_request (EvRequest u) = True"
| "is_request e = False"

definition requests :: "world \<Rightarrow> event list" where
  "requests w = filter is_request (trace w)"

definition prompt_file :: "string \<Rightarrow> path" where
  "prompt_file s = [''prompts'', s @ ''.txt'']"

definition prompt_write :: "SceneSpec \<Rightarrow> event" where
  "prompt_write sc = EvWrite (prompt_file (sign sc)) (Text (prompt sc))"

definition stub_job_events :: "VideoJob \<Rightarrow> event list" where
  "stub_job_events j =
     [EvSubmitted (job_id j), EvMkdir [''renders''], EvTerminal (job_id j) ''done'']"

section \<open>Sample inputs\<close>

text \<open>
  An empty output directory with a clock that starts at 1000 and advances by one per
  reading; the scripts of the fallback generator; the pipeline that \<open>main\<close> builds with
  \<open>--cyberpunk\<close> and no API key in the environment.
\<close>

definition WORLD0 :: world where
  "WORLD0 = \<lparr>fs = Map.empty, trace = [], timeline = (\<lambda>k. 1000 + int k), clock_reads = 0\<rparr>"

definition JUNE_1 :: date where
  "JUNE_1 = \<lparr>year = 2025, month = 6, day = 1\<rparr>"

definition SCRIPTS :: "(string \<times> string) list" where
  "SCRIPTS = generate_daily_horoscopes ''June 01, 2025''"

definition STUB_PIPELINE :: HoroscopeVeoPipeline where
  "STUB_PIPELINE = \<lparr>veo = StubVeoClient ''demo-key'',
                     transformers = [IdentityTransformer, CyberpunkPunchup]\<rparr>"

text \<open>The job ids of the stub client, from the signs and the clock.\<close>

fun stub_ids :: "(nat \<Rightarrow> int) \<Rightarrow> nat \<Rightarrow> string list \<Rightarrow> string list" where
  "stub_ids tm k [] = []"
| "stub_ids tm k (s # ss) = (''veo_'' @ lower s @ ''_'' @ str_int (tm k)) # stub_ids tm (Suc k) ss"

text \<open>A job and a manifest entry with the job id, and the path made from it, blanked.\<close>

definition without_id :: "VideoJob \<Rightarrow> VideoJob" where
  "without_id j = j\<lparr>job_id := [], video_path := None\<rparr>"

definition summary_without_id :: "job_summary \<Rightarrow> job_summary" where
  "summary_without_id e = e\<lparr>js_id := [], js_video_path := None\<rparr>"

section \<open>The transformer chain as specified, and sample transformers\<close>

text \<open>
  The chain as the specification words it: the transformers are applied in order to the
  prompt, each given the output of the one before and the scene, and the final result
  replaces the scene's prompt field.
\<close>

definition chain_as_specified :: "PromptTransformer list \<Rightarrow> SceneSpec \<Rightarrow> SceneSpec" where
  "chain_as_specified ts sc = sc\<lparr>prompt := foldl (\<lambda>p t. t p sc) (prompt sc) ts\<rparr>"

text \<open>A transformer whose result does not depend on the \<open>prompt\<close> field of its scene.\<close>

definition ignores_scene_prompt :: "PromptTransformer \<Rightarrow> bool" where
  "ignores_scene_prompt t = (\<forall>p sc q. t p (sc\<lparr>prompt := q\<rparr>) = t p sc)"

text \<open>A deterministic transformer that reads \<open>scene.prompt\<close>: it appends it to the prompt.\<close>

definition AppendScenePrompt :: PromptTransformer where
  "AppendScenePrompt p sc = p @ prompt sc"

definition BASE_SCENE :: SceneSpec where
  "BASE_SCENE = \<lparr>sign = ''Aries'', script_text = ''luck'', prompt = ''base'',
                  render = RenderSpec_default, style_tag = ''whimsical_astrology''\<rparr>"

section \<open>A sample service and sample arguments\<close>

text \<open>
  A sample service: ids \<open>op_<sign>\<close>; every operation is pending for two polls and then
  done, with a video URL for every sign but Aries.
\<close>

definition SAMPLE_REMOTE :: remote where
  "SAMPLE_REMOTE =
     \<lparr>post_generateVideo = (\<lambda>sc. SubmitJson (Some (''op_'' @ lower (sign sc)))),
      get_operation = (\<lambda>i k. if k < 2 then PollJson False None
                              else PollJson True (if i = ''op_aries'' then None
                                                  else Some (''https://video.example/'' @ i))),
      get_video = (\<lambda>u. DownloadBody ''mp4 bytes'')\<rparr>"




definition ARGS :: args where
  "ARGS = \<lparr>arg_date = None, arg_aspect = ''9:16'', arg_fps = 24,
            arg_style = ''whimsical_astrology'', arg_cyberpunk = False\<rparr>"

section \<open>Properties of \<open>format\<close> and \<open>build_scene\<close>\<close>


lemma get_integer_recognized: "n \<in> set recognized \<Longrightarrow> get_integer n = Keyword"
  by (auto simp: recognized_def get_integer_def is_digit_def)

lemma get_field_recognized:
  "n \<in> set recognized \<Longrightarrow> get_field (scene_kwargs self sg text) n = Returns (field_value self sg text n)"
  using get_integer_recognized [of n]
  by (auto simp: get_field_def recognized_def scene_kwargs_def field_value_def)

lemma get_field_outcome:
  "(\<exists>v. get_field kw n = Returns v \<and> map_of kw n = Some v) \<or> (\<exists>e. get_field kw n = Raises e \<and> is_format_error e)"
  by (auto simp: get_field_def split: field_key.splits option.splits)

lemma get_field_unknown:
  "map_of kw n = None \<Longrightarrow> \<exists>e. get_field kw n = Raises e \<and> is_format_error e"
  using get_field_outcome [of kw n] by auto

lemma render_tokens_recognized:
  "set (placeholders ts) \<subseteq> set recognized \<Longrightarrow>
   render_tokens (scene_kwargs self sg text) ts EndOfTemplate =
     Returns (concat (map (substitute self sg text) ts))"
  by (induction ts rule: placeholders.induct) (auto simp: get_field_recognized)


lemma str_nat_digits: "set (str_nat n) \<subseteq> set ''0123456789''"
proof (induction n rule: str_nat.induct)
  case (1 n)
  have d: "\<And>k. k < 10 \<Longrightarrow> ''0123456789'' ! k \<in> set ''0123456789''"
    by (rule nth_mem) simp
  show ?case
  proof (cases "n < 10")
    case True
    then show ?thesis using d [of n] by (subst str_nat.simps) simp
  next
    case False
    have "n mod 10 < 10" by simp
    then show ?thesis using False 1 d [of "n mod 10"] by (subst str_nat.simps) auto
  qed
qed

lemma starts_with_iff: "starts_with xs ys \<longleftrightarrow> (\<exists>s. ys = xs @ s)"
  by (induction xs ys rule: starts_with.induct) auto

lemma occurs_in_iff: "occurs_in xs ys \<longleftrightarrow> (\<exists>p s. ys = p @ xs @ s)"
proof (induction ys)
  case Nil
  then show ?case by auto
next
  case (Cons y ys)
  show ?case
  proof
    assume "occurs_in xs (y # ys)"
    then consider "starts_with xs (y # ys)" | "occurs_in xs ys" by auto
    then show "\<exists>p s. y # ys = p @ xs @ s"
    proof cases
      case 1
      then obtain s where "y # ys = xs @ s" using starts_with_iff by blast
      then have "y # ys = [] @ xs @ s" by simp
      then show ?thesis by blast
    next
      case 2
      then obtain p s where "ys = p @ xs @ s" using Cons by blast
      then have "y # ys = (y # p) @ xs @ s" by simp
      then show ?thesis by blast
    qed
  next
    assume "\<exists>p s. y # ys = p @ xs @ s"
    then obtain p s where e: "y # ys = p @ xs @ s" by blast
    show "occurs_in xs (y # ys)"
    proof (cases p)
      case Nil
      then have "starts_with xs (y # ys)" using e starts_with_iff by auto
      then show ?thesis by simp
    next
      case (Cons a q)
      then have "ys = q @ xs @ s" using e by simp
      then show ?thesis using Cons.IH by auto
    qed
  qed
qed

lemma occurs_in_concat:
  "t \<in> set ts \<Longrightarrow> occurs_in (f t) (concat (map f ts))"
proof -
  assume "t \<in> set ts"
  then obtain a b where "ts = a @ t # b" by (auto simp: in_set_conv_decomp)
  then have "concat (map f ts) = concat (map f a) @ f t @ concat (map f b)" by simp
  then show ?thesis unfolding occurs_in_iff by blast
qed

lemma placeholders_set: "n \<in> set (placeholders ts) \<longleftrightarrow> Placeholder n \<in> set ts"
  by (induction ts rule: placeholders.induct) auto

lemma parse_DEFAULT_TEMPLATE: "parse_text DEFAULT_TEMPLATE = (DEFAULT_TOKENS, EndOfTemplate)"
  by (simp add: DEFAULT_TEMPLATE_def DEFAULT_TOKENS_def is_ascii_def)

lemma placeholders_DEFAULT_TOKENS: "placeholders DEFAULT_TOKENS = recognized"
  by (simp add: DEFAULT_TOKENS_def recognized_def)

lemma build_scene_recognized:
  assumes "parse_text template = (ts, EndOfTemplate)"
    and "set (placeholders ts) \<subseteq> set recognized"
  shows "build_scene self sg text template =
           Returns \<lparr>sign = sg, script_text = text,
                    prompt = concat (map (substitute self sg text) ts),
                    render = planner_render self, style_tag = planner_style_tag self\<rparr>"
  using assms by (simp add: build_scene_def format_def render_tokens_recognized)

text \<open>With the default template, \<open>build_scene\<close> returns for all arguments.\<close>

lemma build_scene_DEFAULT_TEMPLATE:
  "build_scene self sg text DEFAULT_TEMPLATE =
     Returns \<lparr>sign = sg, script_text = text,
              prompt = concat (map (substitute self sg text) DEFAULT_TOKENS),
              render = planner_render self, style_tag = planner_style_tag self\<rparr>"
  by (rule build_scene_recognized [OF parse_DEFAULT_TEMPLATE])
     (simp add: placeholders_DEFAULT_TOKENS)

lemmas format_eval =
  build_scene_def format_def scene_kwargs_def get_field_def get_integer_def is_digit_def
  is_ascii_def PY_SSIZE_T_MAX_def str_int_def str_nat.simps ScenePlanner_init_def
  RenderSpec_default_def DEFAULT_PLANNER_def

text \<open>
  C4: for every render spec, style tag, sign and caption, and every template that reads
  to its end with placeholders among \<open>aspect\<close>, \<open>sign\<close>, \<open>caption\<close>, \<open>seconds\<close> (the
  default template is one), \<open>build_scene\<close> returns the scene whose prompt is the template
  with every placeholder replaced by the value of its field, so that no placeholder of
  the template is left unreplaced; the value of every placeholder of the template occurs
  in the prompt, and when the template holds each of the four placeholders, the aspect
  ratio, the sign, the caption and the seconds all occur in it.
\<close>

theorem build_scene_substitutes:
  assumes "parse_text template = (ts, EndOfTemplate)"
    and "set (placeholders ts) \<subseteq> set recognized"
  shows "build_scene self sg text template =
           Returns \<lparr>sign = sg, script_text = text,
                    prompt = concat (map (substitute self sg text) ts),
                    render = planner_render self, style_tag = planner_style_tag self\<rparr>
     \<and> (\<forall>n \<in> set (placeholders ts).
          occurs_in (field_value self sg text n) (concat (map (substitute self sg text) ts)))
     \<and> (set recognized \<subseteq> set (placeholders ts) \<longrightarrow>
          occurs_in (aspect_ratio (planner_render self)) (concat (map (substitute self sg text) ts))
        \<and> occurs_in sg (concat (map (substitute self sg text) ts))
        \<and> occurs_in text (concat (map (substitute self sg text) ts))
        \<and> occurs_in (str_int (seconds (planner_render self)))
             (concat (map (substitute self sg text) ts)))"
proof -
  have v: "occurs_in (field_value self sg text n) (concat (map (substitute self sg text) ts))"
    if "n \<in> set (placeholders ts)" for n
  proof -
    from that have "Placeholder n \<in> set ts" by (simp add: placeholders_set)
    then have "occurs_in (substitute self sg text (Placeholder n))
                 (concat (map (substitute self sg text) ts))"
      by (rule occurs_in_concat)
    then show ?thesis by simp
  qed
  have 1: "build_scene self sg text template =
           Returns \<lparr>sign = sg, script_text = text,
                    prompt = concat (map (substitute self sg text) ts),
                    render = planner_render self, style_tag = planner_style_tag self\<rparr>"
    using assms by (rule build_scene_recognized)
  have 3: "occurs_in (aspect_ratio (planner_render self)) (concat (map (substitute self sg text) ts))
        \<and> occurs_in sg (concat (map (substitute self sg text) ts))
        \<and> occurs_in text (concat (map (substitute self sg text) ts))
        \<and> occurs_in (str_int (seconds (planner_render self)))
             (concat (map (substitute self sg text) ts))"
    if a: "set recognized \<subseteq> set (placeholders ts)"
  proof -
    have "''aspect'' \<in> set (placeholders ts)" "''sign'' \<in> set (placeholders ts)"
      "''caption'' \<in> set (placeholders ts)" "''seconds'' \<in> set (placeholders ts)"
      using a by (auto simp: recognized_def)
    then show ?thesis
      using v [of "''aspect''"] v [of "''sign''"] v [of "''caption''"] v [of "''seconds''"]
      by (simp add: field_value_def)
  qed
  from 1 v 3 show ?thesis by blast
qed

theorem build_scene_substitutes_witness:
  "build_scene DEFAULT_PLANNER ''Aries'' ''Lucky day'' DEFAULT_TEMPLATE =
     Returns \<lparr>sign = ''Aries'', script_text = ''Lucky day'',
              prompt = concat (map (substitute DEFAULT_PLANNER ''Aries'' ''Lucky day'') DEFAULT_TOKENS),
              render = RenderSpec_default, style_tag = ''whimsical_astrology''\<rparr>
   \<and> occurs_in ''9:16''
        (concat (map (substitute DEFAULT_PLANNER ''Aries'' ''Lucky day'') DEFAULT_TOKENS))
   \<and> occurs_in ''Aries''
        (concat (map (substitute DEFAULT_PLANNER ''Aries'' ''Lucky day'') DEFAULT_TOKENS))
   \<and> occurs_in ''Lucky day''
        (concat (map (substitute DEFAULT_PLANNER ''Aries'' ''Lucky day'') DEFAULT_TOKENS))
   \<and> occurs_in ''8''
        (concat (map (substitute DEFAULT_PLANNER ''Aries'' ''Lucky day'') DEFAULT_TOKENS))
   \<and> concat (map (substitute DEFAULT_PLANNER ''Aries'' ''Lucky day'') DEFAULT_TOKENS) =
       ''Cinematic 9:16 shot. Theme: whimsical astrology vlog in a cozy neon-lit studio. '' @
       ''Foreground: narrator presence implied via over-the-shoulder framing or empty chair, '' @
       ''floating holographic zodiac glyphs for Aries. Ambient particle dust. Soft volumetric '' @
       ''light through blinds. Camera: slow push-in, shallow depth of field. '' @
       ''Color palette: muted teal, soft gold highlights. '' @
       ''On-screen caption (subtitle style): 'Lucky day'. '' @
       ''Keep timing readable for 8s.''"
proof -
  have p: "set (placeholders DEFAULT_TOKENS) \<subseteq> set recognized"
    by (simp add: placeholders_DEFAULT_TOKENS)
  note t = build_scene_substitutes [OF parse_DEFAULT_TEMPLATE p,
      of DEFAULT_PLANNER "''Aries''" "''Lucky day''"]
  have r: "planner_render DEFAULT_PLANNER = RenderSpec_default"
      "planner_style_tag DEFAULT_PLANNER = ''whimsical_astrology''"
    by (simp_all add: DEFAULT_PLANNER_def ScenePlanner_init_def)
  have 1: "build_scene DEFAULT_PLANNER ''Aries'' ''Lucky day'' DEFAULT_TEMPLATE =
     Returns \<lparr>sign = ''Aries'', script_text = ''Lucky day'',
              prompt = concat (map (substitute DEFAULT_PLANNER ''Aries'' ''Lucky day'') DEFAULT_TOKENS),
              render = RenderSpec_default, style_tag = ''whimsical_astrology''\<rparr>"
    using t r by simp
  have c: "set recognized \<subseteq> set (placeholders DEFAULT_TOKENS)"
    by (simp add: placeholders_DEFAULT_TOKENS)
  have s: "aspect_ratio (planner_render DEFAULT_PLANNER) = ''9:16''"
      "str_int (seconds (planner_render DEFAULT_PLANNER)) = ''8''"
    by (simp_all add: format_eval)
  have 2: "occurs_in ''9:16''
        (concat (map (substitute DEFAULT_PLANNER ''Aries'' ''Lucky day'') DEFAULT_TOKENS))
   \<and> occurs_in ''Aries''
        (concat (map (substitute DEFAULT_PLANNER ''Aries'' ''Lucky day'') DEFAULT_TOKENS))
   \<and> occurs_in ''Lucky day''
        (concat (map (substitute DEFAULT_PLANNER ''Aries'' ''Lucky day'') DEFAULT_TOKENS))
   \<and> occurs_in ''8''
        (concat (map (substitute DEFAULT_PLANNER ''Aries'' ''Lucky day'') DEFAULT_TOKENS))"
    using t c unfolding s by blast
  have 5: "concat (map (substitute DEFAULT_PLANNER ''Aries'' ''Lucky day'') DEFAULT_TOKENS) =
       ''Cinematic 9:16 shot. Theme: whimsical astrology vlog in a cozy neon-lit studio. '' @
       ''Foreground: narrator presence implied via over-the-shoulder framing or empty chair, '' @
       ''floating holographic zodiac glyphs for Aries. Ambient particle dust. Soft volumetric '' @
       ''light through blinds. Camera: slow push-in, shallow depth of field. '' @
       ''Color palette: muted teal, soft gold highlights. '' @
       ''On-screen caption (subtitle style): 'Lucky day'. '' @
       ''Keep timing readable for 8s.''"
    by (simp add: DEFAULT_TOKENS_def field_value_def format_eval)
  from 1 2 5 show ?thesis by blast
qed



section \<open>Running with the stub client\<close>

lemma absent_or_dir_simps [simp]:
  "absent_or_dir None" "absent_or_dir (Some Dir)" "\<not> absent_or_dir (Some (File c))"
  by (simp_all add: absent_or_dir_def)

lemma world_fs_idem [simp]: "fs w p = Some n \<Longrightarrow> w\<lparr>fs := (fs w)(p \<mapsto> n)\<rparr> = w"
  by (simp add: fun_upd_idem)

lemma made_dir_simps [simp]:
  "fs (made_dir p w) = (fs w)(p \<mapsto> Dir)"
  "trace (made_dir p w) = trace w @ [EvMkdir p]"
  "timeline (made_dir p w) = timeline w"
  "clock_reads (made_dir p w) = clock_reads w"
  by (simp_all add: made_dir_def log_event_def)

lemma wrote_simps [simp]:
  "fs (wrote p c w) = (fs w)(p \<mapsto> File c)"
  "trace (wrote p c w) = trace w @ [EvWrite p c]"
  "timeline (wrote p c w) = timeline w"
  "clock_reads (wrote p c w) = clock_reads w"
  by (simp_all add: wrote_def log_event_def)

lemma jobs_done_simps [simp]:
  "fs (jobs_done jobs w) = fs w"
  "trace (jobs_done jobs w) = trace w @ concat (map job_events jobs)"
  "timeline (jobs_done jobs w) = timeline w"
  "clock_reads (jobs_done jobs w) = clock_reads w + length jobs"
  by (simp_all add: jobs_done_def)

lemma mkdir_root:
  "absent_or_dir (fs w []) \<Longrightarrow> mkdir_parents [] w = Returns (made_dir [] w)"
  by (auto simp: mkdir_parents.simps absent_or_dir_def made_dir_def)

lemma mkdir_child:
  "fs w [] = Some Dir \<Longrightarrow> valid_name d \<Longrightarrow> absent_or_dir (fs w [d]) \<Longrightarrow>
   mkdir [d] w = Returns (made_dir [d] w)"
  by (auto simp: mkdir_def absent_or_dir_def made_dir_def)

lemma mkdir_parents_existing:
  "fs w [] = Some Dir \<Longrightarrow> valid_name d \<Longrightarrow> fs w [d] = Some Dir \<Longrightarrow>
   mkdir_parents [d] w = Returns (log_event (EvMkdir [d]) w)"
  by (simp add: mkdir_parents.simps mkdir_def)

lemma write_file_ok:
  "p \<noteq> [] \<Longrightarrow> valid_name (last p) \<Longrightarrow> fs w (butlast p) = Some Dir \<Longrightarrow> fs w p \<noteq> Some Dir \<Longrightarrow>
   write_file p c w = Returns (wrote p c w)"
  by (auto simp: write_file_def wrote_def split: option.splits node.splits)

lemma valid_name_dirs [simp]:
  "valid_name ''prompts''" "valid_name ''renders''" "valid_name ''manifest.json''"
  by (simp_all add: valid_name_def)

lemma sign_apply_transformers [simp]: "sign (apply_transformers ts sc) = sign sc"
  by (induction ts arbitrary: sc) auto

lemma apply_transformers_fields [simp]:
  "script_text (apply_transformers ts sc) = script_text sc"
  "render (apply_transformers ts sc) = render sc"
  "style_tag (apply_transformers ts sc) = style_tag sc"
  by (induction ts arbitrary: sc) auto

lemma fs_prompts_written_other:
  "p \<notin> prompt_path ` set scs \<Longrightarrow> fs (prompts_written scs w) p = fs w p"
  by (induction scs arbitrary: w) auto

lemma fs_prompts_written_file:
  "p \<in> prompt_path ` set scs \<Longrightarrow> \<exists>c. fs (prompts_written scs w) p = Some (File c)"
proof (induction scs arbitrary: w)
  case Nil
  then show ?case by simp
next
  case (Cons a scs)
  show ?case
  proof (cases "p \<in> prompt_path ` set scs")
    case True
    then show ?thesis using Cons.IH by simp
  next
    case False
    then have "p = prompt_path a" using Cons.prems by auto
    then show ?thesis using False by (simp add: fs_prompts_written_other)
  qed
qed

lemma trace_prompts_written:
  "trace (prompts_written scs w) =
     trace w @ map (\<lambda>sc. EvWrite (prompt_path sc) (Text (prompt sc))) scs"
  by (induction scs arbitrary: w) auto

lemma clock_prompts_written [simp]:
  "clock_reads (prompts_written scs w) = clock_reads w"
  "timeline (prompts_written scs w) = timeline w"
  by (induction scs arbitrary: w) auto

lemma persist_prompts_ok:
  assumes "fs w [''prompts''] = Some Dir"
    and "list_all (\<lambda>sc. safe_sign (sign sc) \<and> fs w (prompt_path sc) \<noteq> Some Dir) scs"
  shows "persist_prompts ts scs w =
           Returns (map (apply_transformers ts) scs,
                    prompts_written (map (apply_transformers ts) scs) w)"
  using assms
proof (induction scs arbitrary: w)
  case Nil
  then show ?case by simp
next
  case (Cons sc scs)
  let ?sc = "apply_transformers ts sc"
  let ?w1 = "wrote (prompt_path ?sc) (Text (prompt ?sc)) w"
  have pp: "prompt_path ?sc = [''prompts'', sign sc @ ''.txt'']" by (simp add: prompt_path_def)
  have wr: "write_text (prompt_path ?sc) (prompt ?sc) w = Returns ?w1"
    unfolding write_text_def using Cons.prems
    by (intro write_file_ok) (auto simp: pp safe_sign_def prompt_path_def)
  have "fs ?w1 [''prompts''] = Some Dir" using Cons.prems by (simp add: pp)
  moreover have "list_all (\<lambda>sc. safe_sign (sign sc) \<and> fs ?w1 (prompt_path sc) \<noteq> Some Dir) scs"
    using Cons.prems by (auto simp: list_all_iff)
  ultimately have "persist_prompts ts scs ?w1 =
           Returns (map (apply_transformers ts) scs,
                    prompts_written (map (apply_transformers ts) scs) ?w1)"
    by (rule Cons.IH)
  then show ?case using wr by (simp add: Let_def)
qed

lemma lower_char_slash: "lower_char c = CHR ''/'' \<longleftrightarrow> c = CHR ''/''"
  by (simp add: lower_char_def)

lemma lower_slash: "CHR ''/'' \<in> set (lower s) \<longleftrightarrow> CHR ''/'' \<in> set s"
proof -
  have "CHR ''/'' \<in> set (lower s) \<longleftrightarrow> (\<exists>c \<in> set s. lower_char c = CHR ''/'')"
    by (force simp: lower_def image_iff)
  then show ?thesis by (simp add: lower_char_slash)
qed

lemma str_int_no_slash: "CHR ''/'' \<notin> set (str_int i)"
  using str_nat_digits [of "nat i"] str_nat_digits [of "nat (- i)"]
  by (auto simp: str_int_def)

lemma safe_sign_no_slash: "safe_sign s \<Longrightarrow> CHR ''/'' \<notin> set s"
  by (auto simp: safe_sign_def valid_name_def)

lemma stub_id_no_slash:
  "safe_sign s \<Longrightarrow> CHR ''/'' \<notin> set (''veo_'' @ lower s @ ''_'' @ str_int t)"
  using safe_sign_no_slash [of s] str_int_no_slash [of t] by (simp add: lower_slash)

lemma submit_stub_ok:
  "list_all is_ascii (sign sc) \<Longrightarrow>
   submit_stub sc w =
     Returns (new_job (''veo_'' @ lower (sign sc) @ ''_'' @ str_int (timeline w (clock_reads w))) sc,
              log_event (EvSubmitted (''veo_'' @ lower (sign sc) @ ''_'' @ str_int (timeline w (clock_reads w))))
                (w\<lparr>clock_reads := Suc (clock_reads w)\<rparr>))"
  by (simp add: submit_stub_def utcnow_timestamp_def Let_def)

lemma poll_until_done_stub_ok:
  "fs w [] = Some Dir \<Longrightarrow> fs w [''renders''] = Some Dir \<Longrightarrow> CHR ''/'' \<notin> set (job_id job) \<Longrightarrow>
   poll_until_done_stub job w =
     Returns (job\<lparr>video_path := Some [''renders'', job_id job @ ''.mp4''], status := ''done''\<rparr>,
              log_event (EvTerminal (job_id job) ''done'') (log_event (EvMkdir [''renders'']) w))"
  by (simp add: poll_until_done_stub_def mkdir_parents_existing)

lemma process_jobs_stub_ok:
  assumes "fs w [] = Some Dir" and "fs w [''renders''] = Some Dir"
    and "list_all (\<lambda>sc. safe_sign (sign sc)) scs"
  shows "process_jobs (StubVeoClient key) scs w =
           Returns (stub_jobs (timeline w) (clock_reads w) scs,
                    jobs_done (stub_jobs (timeline w) (clock_reads w) scs) w)"
  using assms
proof (induction scs arbitrary: w)
  case Nil
  then show ?case by (simp add: jobs_done_def)
next
  case (Cons sc scs)
  define i where "i = ''veo_'' @ lower (sign sc) @ ''_'' @ str_int (timeline w (clock_reads w))"
  define w1 where "w1 = log_event (EvSubmitted i) (w\<lparr>clock_reads := Suc (clock_reads w)\<rparr>)"
  define w2 where "w2 = log_event (EvTerminal i ''done'') (log_event (EvMkdir [''renders'']) w1)"
  define j where "j = stub_job (timeline w (clock_reads w)) sc"
  have s: "safe_sign (sign sc)" using Cons.prems by simp
  then have a: "list_all is_ascii (sign sc)" by (simp add: safe_sign_def)
  have sub: "submit_stub sc w = Returns (new_job i sc, w1)"
    unfolding i_def w1_def using a by (rule submit_stub_ok)
  have ns: "CHR ''/'' \<notin> set (job_id (new_job i sc))"
    using stub_id_no_slash [OF s] by (simp add: new_job_def i_def)
  have f1: "fs w1 [] = Some Dir" "fs w1 [''renders''] = Some Dir"
    using Cons.prems by (simp_all add: log_event_def w1_def)
  have jj: "(new_job i sc)\<lparr>video_path := Some [''renders'', job_id (new_job i sc) @ ''.mp4''],
               status := ''done''\<rparr> = j"
    by (simp add: new_job_def j_def stub_job_def i_def)
  have pol: "poll_until_done_stub (new_job i sc) w1 = Returns (j, w2)"
    using poll_until_done_stub_ok [OF f1 ns] jj by (simp add: w2_def new_job_def)
  have f2: "fs w2 [] = Some Dir" "fs w2 [''renders''] = Some Dir"
    using f1 by (simp_all add: log_event_def w2_def)
  have rest: "list_all (\<lambda>sc. safe_sign (sign sc)) scs" using Cons.prems by simp
  have t: "timeline w2 = timeline w" "clock_reads w2 = Suc (clock_reads w)"
    by (simp_all add: log_event_def w2_def w1_def)
  have ih: "process_jobs (StubVeoClient key) scs w2 =
           Returns (stub_jobs (timeline w) (Suc (clock_reads w)) scs,
                    jobs_done (stub_jobs (timeline w) (Suc (clock_reads w)) scs) w2)"
    using Cons.IH [OF f2 rest] by (simp only: t)
  have e: "jobs_done (stub_jobs (timeline w) (Suc (clock_reads w)) scs) w2 =
      jobs_done (j # stub_jobs (timeline w) (Suc (clock_reads w)) scs) w"
    by (simp add: jobs_done_def log_event_def job_events_def stub_job_def j_def w2_def w1_def i_def)
  have "process_jobs (StubVeoClient key) (sc # scs) w =
      omap (\<lambda>(jobs, w3). (j # jobs, w3)) (process_jobs (StubVeoClient key) scs w2)"
    by (simp add: sub pol)
  also have "\<dots> = Returns (j # stub_jobs (timeline w) (Suc (clock_reads w)) scs,
      jobs_done (j # stub_jobs (timeline w) (Suc (clock_reads w)) scs) w)"
    by (simp add: ih e)
  finally show ?case by (simp add: j_def)
qed

lemma build_scenes_ok:
  assumes "parse_text template = (ts, EndOfTemplate)"
    and "set (placeholders ts) \<subseteq> set recognized"
  shows "build_scenes (ScenePlanner_init r style) scripts template =
           Returns (planned_scenes r style scripts ts)"
proof (induction scripts)
  case Nil
  then show ?case by (simp add: planned_scenes_def)
next
  case (Cons a scripts)
  obtain sg tx where a: "a = (sg, tx)" by (cases a)
  have "build_scene (ScenePlanner_init r style) sg tx template =
      Returns \<lparr>sign = sg, script_text = tx,
             prompt = concat (map (substitute (ScenePlanner_init r style) sg tx) ts),
             render = r, style_tag = style\<rparr>"
    using build_scene_recognized [OF assms, of "ScenePlanner_init r style" sg tx]
    by (simp add: ScenePlanner_init_def)
  then show ?case using Cons a by (simp add: planned_scenes_def)
qed

lemma sign_planned_scenes [simp]:
  "map sign (planned_scenes r style scripts ts) = map fst scripts"
  by (simp add: planned_scenes_def split_def)

lemma sign_final_scenes [simp]:
  "map sign (final_scenes trs r style scripts ts) = map fst scripts"
proof -
  have "map sign (final_scenes trs r style scripts ts) = map sign (planned_scenes r style scripts ts)"
    by (simp add: final_scenes_def comp_def)
  then show ?thesis by simp
qed

lemma run_stub_ok:
  assumes "parse_text template = (ts, EndOfTemplate)"
    and "set (placeholders ts) \<subseteq> set recognized"
    and "ready w (map fst scripts)"
    and "list_all safe_sign (map fst scripts)"
  shows "run \<lparr>veo = StubVeoClient key, transformers = trs\<rparr> scripts d r template style w =
           Returns (stub_jobs (timeline w) (clock_reads w) (final_scenes trs r style scripts ts),
                    stub_run_world d r (final_scenes trs r style scripts ts) w)"
proof -
  let ?planned = "planned_scenes r style scripts ts"
  let ?final = "final_scenes trs r style scripts ts"
  let ?w1 = "made_dir [] w"
  let ?w2 = "made_dir [''prompts''] ?w1"
  let ?w3 = "made_dir [''renders''] ?w2"
  let ?w4 = "prompts_written ?final ?w3"
  let ?jobs = "stub_jobs (timeline w) (clock_reads w) ?final"
  let ?w5 = "jobs_done ?jobs ?w4"
  have r: "absent_or_dir (fs w [])" "absent_or_dir (fs w [''prompts''])"
      "absent_or_dir (fs w [''renders''])" "fs w [''manifest.json''] \<noteq> Some Dir"
      "list_all (\<lambda>s. fs w [''prompts'', s @ ''.txt''] \<noteq> Some Dir) (map fst scripts)"
    using assms(3) by (simp_all add: ready_def)
  have 1: "mkdir_parents [] w = Returns ?w1" using r(1) by (rule mkdir_root)
  have 2: "mkdir [''prompts''] ?w1 = Returns ?w2"
    using r(2) by (intro mkdir_child) simp_all
  have 3: "mkdir [''renders''] ?w2 = Returns ?w3"
    using r(3) by (intro mkdir_child) simp_all
  have 4: "build_scenes (ScenePlanner_init r style) scripts template = Returns ?planned"
    using assms(1,2) by (rule build_scenes_ok)
  have s0: "map sign ?planned = map fst scripts" by simp
  have "list_all (\<lambda>sc. safe_sign (sign sc) \<and> fs ?w3 (prompt_path sc) \<noteq> Some Dir) ?planned"
  proof -
    have "safe_sign (sign sc) \<and> fs ?w3 (prompt_path sc) \<noteq> Some Dir" if "sc \<in> set ?planned" for sc
    proof -
      have "sign sc \<in> set (map fst scripts)" using that s0 by (metis image_eqI set_map)
      then have "safe_sign (sign sc)" "fs w [''prompts'', sign sc @ ''.txt''] \<noteq> Some Dir"
        using assms(4) r(5) by (auto simp: list_all_iff)
      then show ?thesis by (simp add: prompt_path_def)
    qed
    then show ?thesis by (simp add: list_all_iff)
  qed
  moreover have "fs ?w3 [''prompts''] = Some Dir" by simp
  ultimately have 5: "persist_prompts trs ?planned ?w3 = Returns (?final, ?w4)"
    using persist_prompts_ok [of ?w3 ?planned trs] by (simp add: final_scenes_def)
  have p1: "[] \<notin> prompt_path ` set ?final" "[''renders''] \<notin> prompt_path ` set ?final"
      "[''manifest.json''] \<notin> prompt_path ` set ?final"
    by (auto simp: prompt_path_def)
  have f4: "fs ?w4 [] = Some Dir" "fs ?w4 [''renders''] = Some Dir"
      "fs ?w4 [''manifest.json''] = fs w [''manifest.json'']"
    using p1 by (simp_all add: fs_prompts_written_other)
  have "list_all (\<lambda>sc. safe_sign (sign sc)) ?final"
  proof -
    have "safe_sign (sign sc)" if "sc \<in> set ?final" for sc
    proof -
      have "sign sc \<in> set (map fst scripts)"
        using that sign_final_scenes [of trs r style scripts ts] by (metis imageI set_map)
      then show ?thesis using assms(4) by (auto simp: list_all_iff)
    qed
    then show ?thesis by (simp add: list_all_iff)
  qed
  then have 6: "process_jobs (StubVeoClient key) ?final ?w4 = Returns (?jobs, ?w5)"
    using process_jobs_stub_ok [OF f4(1) f4(2), of ?final key] by simp
  have 7: "write_file [''manifest.json''] (Json (make_manifest d r ?jobs)) ?w5 =
      Returns (wrote [''manifest.json''] (Json (make_manifest d r ?jobs)) ?w5)"
    using f4 r(4) by (intro write_file_ok) simp_all
  show ?thesis
    unfolding run_def using 1 2 3 4 5 6 7
    by (simp add: stub_run_world_def dirs_made_def)
qed

section \<open>The world after a run with the stub client\<close>

lemma written_paths_append [simp]:
  "written_paths (xs @ ys) = written_paths xs @ written_paths ys"
  by (induction xs rule: written_paths.induct) auto

lemma prompt_path_file: "prompt_path sc = prompt_file (sign sc)"
  by (simp add: prompt_path_def prompt_file_def)

lemma stub_jobs_props:
  "map scene (stub_jobs tm k scs) = scs"
  "length (stub_jobs tm k scs) = length scs"
  "list_all (\<lambda>j. status j = ''done'' \<and> video_path j = Some [''renders'', job_id j @ ''.mp4''])
     (stub_jobs tm k scs)"
  by (induction scs arbitrary: k) (auto simp: stub_job_def)

lemma job_events_stub_jobs:
  "concat (map job_events (stub_jobs tm k scs)) = concat (map stub_job_events (stub_jobs tm k scs))"
  by (induction scs arbitrary: k) (auto simp: stub_job_def job_events_def stub_job_events_def)

lemma trace_stub_run_world:
  "trace (stub_run_world d r scs w) =
     trace w @ [EvMkdir [], EvMkdir [''prompts''], EvMkdir [''renders'']]
       @ map prompt_write scs
       @ concat (map stub_job_events (stub_jobs (timeline w) (clock_reads w) scs))
       @ [EvWrite [''manifest.json'']
            (Json (make_manifest d r (stub_jobs (timeline w) (clock_reads w) scs)))]"
  by (simp add: stub_run_world_def dirs_made_def trace_prompts_written job_events_stub_jobs
      prompt_write_def prompt_path_file)

lemma new_events_stub_run_world:
  "new_events w (stub_run_world d r scs w) =
     [EvMkdir [], EvMkdir [''prompts''], EvMkdir [''renders'']]
       @ map prompt_write scs
       @ concat (map stub_job_events (stub_jobs (timeline w) (clock_reads w) scs))
       @ [EvWrite [''manifest.json'']
            (Json (make_manifest d r (stub_jobs (timeline w) (clock_reads w) scs)))]"
  by (simp add: new_events_def trace_stub_run_world)

lemma written_paths_prompt_writes:
  "written_paths (map prompt_write scs) = map (\<lambda>sc. prompt_file (sign sc)) scs"
  by (induction scs) (auto simp: prompt_write_def)

lemma written_paths_stub_job_events:
  "written_paths (concat (map stub_job_events js)) = []"
  by (induction js) (auto simp: stub_job_events_def)

lemma written_paths_stub_run_world:
  "written_paths (new_events w (stub_run_world d r scs w)) =
     map prompt_file (map sign scs) @ [[''manifest.json'']]"
  by (simp add: new_events_stub_run_world written_paths_prompt_writes
      written_paths_stub_job_events comp_def)

lemma fs_prompts_written_last:
  "distinct (map sign scs) \<Longrightarrow> sc \<in> set scs \<Longrightarrow>
   fs (prompts_written scs w) (prompt_file (sign sc)) = Some (File (Text (prompt sc)))"
proof (induction scs arbitrary: w)
  case Nil
  then show ?case by simp
next
  case (Cons a scs)
  show ?case
  proof (cases "sc = a")
    case True
    have "prompt_file (sign a) \<notin> prompt_path ` set scs"
      using Cons.prems(1) by (auto simp: prompt_path_def prompt_file_def)
    then show ?thesis using True by (simp add: fs_prompts_written_other prompt_path_file)
  next
    case False
    then show ?thesis using Cons by simp
  qed
qed

lemma fs_stub_run_world_prompt:
  "distinct (map sign scs) \<Longrightarrow> sc \<in> set scs \<Longrightarrow>
   fs (stub_run_world d r scs w) (prompt_file (sign sc)) = Some (File (Text (prompt sc)))"
proof -
  assume a: "distinct (map sign scs)" "sc \<in> set scs"
  have "prompt_file (sign sc) \<noteq> [''manifest.json'']" by (simp add: prompt_file_def)
  then show ?thesis
    using fs_prompts_written_last [OF a, of "dirs_made w"] by (simp add: stub_run_world_def)
qed

lemma fs_stub_run_world_manifest:
  "fs (stub_run_world d r scs w) [''manifest.json''] =
     Some (File (Json (make_manifest d r (stub_jobs (timeline w) (clock_reads w) scs))))"
  by (simp add: stub_run_world_def)

lemma fs_stub_run_world_dirs:
  "fs (stub_run_world d r scs w) [] = Some Dir"
  "fs (stub_run_world d r scs w) [''prompts''] = Some Dir"
  "fs (stub_run_world d r scs w) [''renders''] = Some Dir"
proof -
  have "[] \<notin> prompt_path ` set scs" "[''prompts''] \<notin> prompt_path ` set scs"
      "[''renders''] \<notin> prompt_path ` set scs"
    by (auto simp: prompt_path_def)
  then show "fs (stub_run_world d r scs w) [] = Some Dir"
    "fs (stub_run_world d r scs w) [''prompts''] = Some Dir"
    "fs (stub_run_world d r scs w) [''renders''] = Some Dir"
    by (simp_all add: stub_run_world_def dirs_made_def fs_prompts_written_other)
qed

lemma fs_stub_run_world_other:
  assumes "p \<notin> set (map prompt_file (map sign scs))"
    and "p \<noteq> [''manifest.json'']" and "p \<noteq> []" and "p \<noteq> [''prompts'']" and "p \<noteq> [''renders'']"
  shows "fs (stub_run_world d r scs w) p = fs w p"
proof -
  have "p \<notin> prompt_path ` set scs" using assms(1) by (auto simp: prompt_path_file)
  then show ?thesis using assms
    by (simp add: stub_run_world_def dirs_made_def fs_prompts_written_other)
qed

lemma clock_stub_run_world:
  "timeline (stub_run_world d r scs w) = timeline w"
  "clock_reads (stub_run_world d r scs w) = clock_reads w + length scs"
  by (simp_all add: stub_run_world_def dirs_made_def stub_jobs_props)

lemma ready_stub_run_world:
  "distinct (map sign scs) \<Longrightarrow> ready (stub_run_world d r scs w) (map sign scs)"
proof -
  assume dist: "distinct (map sign scs)"
  have "fs (stub_run_world d r scs w) [''prompts'', s @ ''.txt''] \<noteq> Some Dir"
    if "s \<in> set (map sign scs)" for s
  proof -
    have "s \<in> sign ` set scs" using that by simp
    then obtain sc where "sc \<in> set scs" "s = sign sc" by blast
    then show ?thesis using fs_stub_run_world_prompt [OF dist, of sc d r w]
      by (simp add: prompt_file_def)
  qed
  then show ?thesis
    by (simp add: ready_def fs_stub_run_world_dirs fs_stub_run_world_manifest list_all_iff)
qed

lemma ZODIAC_SIGNS_safe: "list_all safe_sign ZODIAC_SIGNS"
  by (simp add: ZODIAC_SIGNS_def safe_sign_def valid_name_def is_ascii_def)

lemma ZODIAC_SIGNS_distinct: "distinct ZODIAC_SIGNS" "length ZODIAC_SIGNS = 12"
  by (simp_all add: ZODIAC_SIGNS_def)

section \<open>Runs over the twelve signs\<close>

lemma map_fst_generate [simp]: "map fst (generate_daily_horoscopes ds) = ZODIAC_SIGNS"
  by (simp add: generate_daily_horoscopes_def comp_def)

lemma ready_WORLD0: "ready WORLD0 signs"
  by (simp add: ready_def WORLD0_def list_all_iff)

lemma job_id_stub_jobs: "map job_id (stub_jobs tm k scs) = stub_ids tm k (map sign scs)"
  by (induction scs arbitrary: k) (auto simp: stub_job_def)

lemma without_id_stub_jobs:
  "map without_id (stub_jobs tm k scs) =
     map (\<lambda>sc. \<lparr>job_id = [], scene = sc, status = ''done'', video_path = None\<rparr>) scs"
  by (induction scs arbitrary: k) (auto simp: stub_job_def without_id_def)

lemma summary_without_id_summary: "summary_without_id (summary j) = summary (without_id j)"
  by (simp add: summary_without_id_def summary_def without_id_def)

lemma run_stub_zodiac:
  assumes "map fst scripts = ZODIAC_SIGNS"
    and "parse_text template = (ts, EndOfTemplate)"
    and "set (placeholders ts) \<subseteq> set recognized"
    and "ready w ZODIAC_SIGNS"
  shows "run \<lparr>veo = StubVeoClient key, transformers = trs\<rparr> scripts d r template style w =
           Returns (stub_jobs (timeline w) (clock_reads w) (final_scenes trs r style scripts ts),
                    stub_run_world d r (final_scenes trs r style scripts ts) w)"
  using assms ZODIAC_SIGNS_safe by (intro run_stub_ok) simp_all

text \<open>
  C1: with the stub client, a template whose placeholders are the recognised ones and an
  output directory with nothing in the way, a run over the twelve signs returns twelve
  jobs, one per sign in the order of the input keys; the prompt files it writes are the
  twelve \<open>prompts/<Sign>.txt\<close>, each holding the final prompt of its scene; and the
  manifest it writes lists twelve jobs whose \<open>sign\<close> fields are the input keys, each once.
\<close>

theorem run_twelve_prompts_and_jobs:
  assumes "map fst scripts = ZODIAC_SIGNS"
    and "parse_text template = (ts, EndOfTemplate)"
    and "set (placeholders ts) \<subseteq> set recognized"
    and "ready w ZODIAC_SIGNS"
  shows "\<exists>jobs w'.
      run \<lparr>veo = StubVeoClient key, transformers = trs\<rparr> scripts d r template style w
        = Returns (jobs, w')
    \<and> length jobs = 12
    \<and> map (\<lambda>j. sign (scene j)) jobs = map fst scripts
    \<and> distinct (map fst scripts)
    \<and> filter (\<lambda>p. p \<noteq> [''manifest.json'']) (written_paths (new_events w w'))
        = map prompt_file (map fst scripts)
    \<and> (\<forall>j \<in> set jobs.
          fs w' (prompt_file (sign (scene j))) = Some (File (Text (prompt (scene j)))))
    \<and> fs w' [''manifest.json''] = Some (File (Json (make_manifest d r jobs)))
    \<and> length (m_jobs (make_manifest d r jobs)) = 12
    \<and> map js_sign (m_jobs (make_manifest d r jobs)) = map fst scripts"
proof -
  define scs where "scs = final_scenes trs r style scripts ts"
  define jobs where "jobs = stub_jobs (timeline w) (clock_reads w) scs"
  define w' where "w' = stub_run_world d r scs w"
  have sg: "map sign scs = ZODIAC_SIGNS" using assms(1) by (simp add: scs_def)
  have sc: "map scene jobs = scs" by (simp add: jobs_def stub_jobs_props)
  have 1: "run \<lparr>veo = StubVeoClient key, transformers = trs\<rparr> scripts d r template style w
        = Returns (jobs, w')"
    unfolding jobs_def w'_def scs_def using assms by (rule run_stub_zodiac)
  have "length scs = 12" using sg ZODIAC_SIGNS_distinct(2) by (metis length_map)
  then have 2: "length jobs = 12" by (simp add: jobs_def stub_jobs_props)
  have "map sign (map scene jobs) = ZODIAC_SIGNS" using sc sg by simp
  then have 3: "map (\<lambda>j. sign (scene j)) jobs = map fst scripts"
    using assms(1) by (simp add: comp_def)
  have 4: "distinct (map fst scripts)" using assms(1) ZODIAC_SIGNS_distinct(1) by simp
  have "filter (\<lambda>p. p \<noteq> [''manifest.json'']) (map prompt_file ss) = map prompt_file ss" for ss
    by (induction ss) (auto simp: prompt_file_def)
  then have 5: "filter (\<lambda>p. p \<noteq> [''manifest.json'']) (written_paths (new_events w w'))
        = map prompt_file (map fst scripts)"
    using sg assms(1) by (simp add: w'_def written_paths_stub_run_world)
  have d: "distinct (map sign scs)" using sg ZODIAC_SIGNS_distinct(1) by simp
  have 6: "\<forall>j \<in> set jobs.
          fs w' (prompt_file (sign (scene j))) = Some (File (Text (prompt (scene j))))"
  proof
    fix j assume "j \<in> set jobs"
    then have "scene j \<in> set (map scene jobs)" by simp
    then have "scene j \<in> set scs" by (simp only: sc)
    then show "fs w' (prompt_file (sign (scene j))) = Some (File (Text (prompt (scene j))))"
      unfolding w'_def using d by (intro fs_stub_run_world_prompt)
  qed
  have 7: "fs w' [''manifest.json''] = Some (File (Json (make_manifest d r jobs)))"
    by (simp add: w'_def jobs_def fs_stub_run_world_manifest)
  have 8: "length (m_jobs (make_manifest d r jobs)) = 12" using 2 by (simp add: make_manifest_def)
  have 9: "map js_sign (m_jobs (make_manifest d r jobs)) = map fst scripts"
    using 3 by (simp add: make_manifest_def summary_def comp_def)
  from 1 2 3 4 5 6 7 8 9 show ?thesis by blast
qed

lemma stub_ids_ZODIAC:
  "stub_ids (\<lambda>k. 1000 + int k) 0 ZODIAC_SIGNS =
     [''veo_aries_1000'', ''veo_taurus_1001'', ''veo_gemini_1002'', ''veo_cancer_1003'',
      ''veo_leo_1004'', ''veo_virgo_1005'', ''veo_libra_1006'', ''veo_scorpio_1007'',
      ''veo_sagittarius_1008'', ''veo_capricorn_1009'', ''veo_aquarius_1010'',
      ''veo_pisces_1011'']"
  by (simp add: ZODIAC_SIGNS_def lower_def lower_char_def str_int_def str_nat.simps)

lemma run_STUB_PIPELINE:
  "run STUB_PIPELINE SCRIPTS JUNE_1 RenderSpec_default DEFAULT_TEMPLATE ''whimsical_astrology'' WORLD0 =
     Returns (stub_jobs (timeline WORLD0) (clock_reads WORLD0)
                (final_scenes [IdentityTransformer, CyberpunkPunchup] RenderSpec_default
                   ''whimsical_astrology'' SCRIPTS DEFAULT_TOKENS),
              stub_run_world JUNE_1 RenderSpec_default
                (final_scenes [IdentityTransformer, CyberpunkPunchup] RenderSpec_default
                   ''whimsical_astrology'' SCRIPTS DEFAULT_TOKENS) WORLD0)"
  unfolding STUB_PIPELINE_def
  by (rule run_stub_zodiac)
     (simp_all add: SCRIPTS_def parse_DEFAULT_TEMPLATE placeholders_DEFAULT_TOKENS ready_WORLD0)

lemma job_ids_STUB_PIPELINE:
  "omap (\<lambda>(jobs, w'). map job_id jobs)
     (run STUB_PIPELINE SCRIPTS JUNE_1 RenderSpec_default DEFAULT_TEMPLATE
        ''whimsical_astrology'' WORLD0) =
   Returns [''veo_aries_1000'', ''veo_taurus_1001'', ''veo_gemini_1002'', ''veo_cancer_1003'',
      ''veo_leo_1004'', ''veo_virgo_1005'', ''veo_libra_1006'', ''veo_scorpio_1007'',
      ''veo_sagittarius_1008'', ''veo_capricorn_1009'', ''veo_aquarius_1010'',
      ''veo_pisces_1011'']"
proof -
  have "map job_id (stub_jobs (timeline WORLD0) (clock_reads WORLD0)
                (final_scenes [IdentityTransformer, CyberpunkPunchup] RenderSpec_default
                   ''whimsical_astrology'' SCRIPTS DEFAULT_TOKENS))
      = stub_ids (\<lambda>k. 1000 + int k) 0 ZODIAC_SIGNS"
    by (simp add: job_id_stub_jobs SCRIPTS_def WORLD0_def)
  then show ?thesis by (simp add: run_STUB_PIPELINE stub_ids_ZODIAC)
qed

theorem run_twelve_prompts_and_jobs_witness:
  "(\<exists>jobs w'.
      run STUB_PIPELINE SCRIPTS JUNE_1 RenderSpec_default DEFAULT_TEMPLATE
        ''whimsical_astrology'' WORLD0 = Returns (jobs, w')
    \<and> length jobs = 12
    \<and> map (\<lambda>j. sign (scene j)) jobs = map fst SCRIPTS
    \<and> distinct (map fst SCRIPTS)
    \<and> filter (\<lambda>p. p \<noteq> [''manifest.json'']) (written_paths (new_events WORLD0 w'))
        = map prompt_file (map fst SCRIPTS)
    \<and> (\<forall>j \<in> set jobs.
          fs w' (prompt_file (sign (scene j))) = Some (File (Text (prompt (scene j)))))
    \<and> fs w' [''manifest.json''] = Some (File (Json (make_manifest JUNE_1 RenderSpec_default jobs)))
    \<and> length (m_jobs (make_manifest JUNE_1 RenderSpec_default jobs)) = 12
    \<and> map js_sign (m_jobs (make_manifest JUNE_1 RenderSpec_default jobs)) = map fst SCRIPTS)
   \<and> map fst SCRIPTS = ZODIAC_SIGNS"
proof -
  have a: "map fst SCRIPTS = ZODIAC_SIGNS" by (simp add: SCRIPTS_def)
  have b: "set (placeholders DEFAULT_TOKENS) \<subseteq> set recognized"
    by (simp add: placeholders_DEFAULT_TOKENS)
  show ?thesis
    using run_twelve_prompts_and_jobs [OF a parse_DEFAULT_TEMPLATE b ready_WORLD0,
        of "''demo-key''" "[IdentityTransformer, CyberpunkPunchup]" JUNE_1 RenderSpec_default
           "''whimsical_astrology''"] a
    unfolding STUB_PIPELINE_def by blast
qed

section \<open>Order and extent of the effects of a run\<close>




text \<open>
  C10: such a run writes the twelve prompt files and \<open>manifest.json\<close> and no other file;
  \<open>out_dir\<close>, \<open>prompts\<close> and \<open>renders\<close> are directories afterwards; every other path
  is as it was before, in particular every path in \<open>renders\<close>: the file
  \<open>renders/<job_id>.mp4\<close> that each job's \<open>video_path\<close> and the manifest name is not
  created.
\<close>

theorem run_writes_no_other_file:
  assumes "map fst scripts = ZODIAC_SIGNS"
    and "parse_text template = (ts, EndOfTemplate)"
    and "set (placeholders ts) \<subseteq> set recognized"
    and "ready w ZODIAC_SIGNS"
  shows "\<exists>jobs w'.
      run \<lparr>veo = StubVeoClient key, transformers = trs\<rparr> scripts d r template style w
        = Returns (jobs, w')
    \<and> written_paths (new_events w w') = map prompt_file ZODIAC_SIGNS @ [[''manifest.json'']]
    \<and> fs w' [] = Some Dir \<and> fs w' [''prompts''] = Some Dir \<and> fs w' [''renders''] = Some Dir
    \<and> (\<forall>p. p \<notin> set (map prompt_file ZODIAC_SIGNS) \<and> p \<noteq> [''manifest.json'']
             \<and> p \<noteq> [] \<and> p \<noteq> [''prompts''] \<and> p \<noteq> [''renders'']
           \<longrightarrow> fs w' p = fs w p)
    \<and> (\<forall>n. fs w' [''renders'', n] = fs w [''renders'', n])
    \<and> (\<forall>j \<in> set jobs. video_path j = Some [''renders'', job_id j @ ''.mp4'']
           \<and> js_video_path (summary j) = Some [''renders'', job_id j @ ''.mp4''])"
proof -
  define scs where "scs = final_scenes trs r style scripts ts"
  define jobs where "jobs = stub_jobs (timeline w) (clock_reads w) scs"
  define w' where "w' = stub_run_world d r scs w"
  have sg: "map sign scs = ZODIAC_SIGNS" using assms(1) by (simp add: scs_def)
  have 1: "run \<lparr>veo = StubVeoClient key, transformers = trs\<rparr> scripts d r template style w
        = Returns (jobs, w')"
    unfolding jobs_def w'_def scs_def using assms by (rule run_stub_zodiac)
  have 2: "written_paths (new_events w w') = map prompt_file ZODIAC_SIGNS @ [[''manifest.json'']]"
    by (simp add: w'_def written_paths_stub_run_world sg)
  have 3: "fs w' [] = Some Dir" "fs w' [''prompts''] = Some Dir" "fs w' [''renders''] = Some Dir"
    by (simp_all add: w'_def fs_stub_run_world_dirs)
  have 4: "fs w' p = fs w p"
    if "p \<notin> set (map prompt_file ZODIAC_SIGNS)" "p \<noteq> [''manifest.json'']"
       "p \<noteq> []" "p \<noteq> [''prompts'']" "p \<noteq> [''renders'']" for p
    unfolding w'_def using that sg by (intro fs_stub_run_world_other) simp_all
  have 5: "fs w' [''renders'', n] = fs w [''renders'', n]" for n
    by (rule 4) (auto simp: prompt_file_def)
  have "list_all (\<lambda>j. status j = ''done'' \<and> video_path j = Some [''renders'', job_id j @ ''.mp4''])
     jobs"
    unfolding jobs_def by (rule stub_jobs_props)
  then have 6: "\<forall>j \<in> set jobs. video_path j = Some [''renders'', job_id j @ ''.mp4'']
           \<and> js_video_path (summary j) = Some [''renders'', job_id j @ ''.mp4'']"
    by (simp add: list_all_iff summary_def)
  from 1 2 3 4 5 6 show ?thesis by blast
qed

theorem run_writes_no_other_file_witness:
  "(\<exists>jobs w'.
      run STUB_PIPELINE SCRIPTS JUNE_1 RenderSpec_default DEFAULT_TEMPLATE
        ''whimsical_astrology'' WORLD0 = Returns (jobs, w')
    \<and> written_paths (new_events WORLD0 w') = map prompt_file ZODIAC_SIGNS @ [[''manifest.json'']]
    \<and> fs w' [] = Some Dir \<and> fs w' [''prompts''] = Some Dir \<and> fs w' [''renders''] = Some Dir
    \<and> (\<forall>p. p \<notin> set (map prompt_file ZODIAC_SIGNS) \<and> p \<noteq> [''manifest.json'']
             \<and> p \<noteq> [] \<and> p \<noteq> [''prompts''] \<and> p \<noteq> [''renders'']
           \<longrightarrow> fs w' p = fs WORLD0 p)
    \<and> (\<forall>n. fs w' [''renders'', n] = fs WORLD0 [''renders'', n])
    \<and> (\<forall>j \<in> set jobs. video_path j = Some [''renders'', job_id j @ ''.mp4'']
           \<and> js_video_path (summary j) = Some [''renders'', job_id j @ ''.mp4'']))
   \<and> map fst SCRIPTS = ZODIAC_SIGNS
   \<and> fs WORLD0 [''renders'', ''veo_aries_1000.mp4''] = None"
proof -
  have a: "map fst SCRIPTS = ZODIAC_SIGNS" by (simp add: SCRIPTS_def)
  have b: "set (placeholders DEFAULT_TOKENS) \<subseteq> set recognized"
    by (simp add: placeholders_DEFAULT_TOKENS)
  have c: "fs WORLD0 [''renders'', ''veo_aries_1000.mp4''] = None" by (simp add: WORLD0_def)
  show ?thesis
    using run_writes_no_other_file [OF a parse_DEFAULT_TEMPLATE b ready_WORLD0,
        of "''demo-key''" "[IdentityTransformer, CyberpunkPunchup]" JUNE_1 RenderSpec_default
           "''whimsical_astrology''"] a c
    unfolding STUB_PIPELINE_def by blast
qed

section \<open>Any run with the stub client\<close>

lemma obind_Returns: "obind m f = Returns y \<longleftrightarrow> (\<exists>x. m = Returns x \<and> f x = Returns y)"
  by (cases m) auto

lemma omap_Returns: "omap f m = Returns y \<longleftrightarrow> (\<exists>x. m = Returns x \<and> y = f x)"
  by (cases m) auto

lemma requests_log_event:
  "requests (log_event e w) = (if is_request e then requests w @ [e] else requests w)"
  by (simp add: requests_def log_event_def)

lemma requests_update [simp]:
  "requests (w\<lparr>fs := f\<rparr>) = requests w" "requests (w\<lparr>clock_reads := n\<rparr>) = requests w"
  by (simp_all add: requests_def)

lemma mkdir_requests: "mkdir p w = Returns w' \<Longrightarrow> requests w' = requests w"
  by (auto simp: mkdir_def requests_log_event split: if_splits option.splits node.splits)

lemma mkdir_parents_requests: "mkdir_parents p w = Returns w' \<Longrightarrow> requests w' = requests w"
proof (induction p w arbitrary: w' rule: mkdir_parents.induct)
  case (1 p w)
  show ?case
  proof (cases "p = []")
    case True
    then show ?thesis using "1.prems"
      by (auto simp: mkdir_parents.simps requests_log_event split: option.splits node.splits)
  next
    case False
    show ?thesis
    proof (cases "fs w (butlast p)")
      case None
      then obtain w1 where a: "mkdir_parents (butlast p) w = Returns w1" "mkdir p w1 = Returns w'"
        using "1.prems" False by (auto simp: mkdir_parents.simps [of p] obind_Returns)
      then have "requests w1 = requests w" using "1.IH" False None by simp
      then show ?thesis using a(2) mkdir_requests by fastforce
    next
      case (Some n)
      then have "mkdir p w = Returns w'"
        using "1.prems" False by (simp add: mkdir_parents.simps [of p])
      then show ?thesis by (rule mkdir_requests)
    qed
  qed
qed

lemma write_file_requests: "write_file p c w = Returns w' \<Longrightarrow> requests w' = requests w"
  by (auto simp: write_file_def requests_log_event split: if_splits option.splits node.splits)

lemma write_file_fs: "write_file p c w = Returns w' \<Longrightarrow> fs w' p = Some (File c)"
  by (auto simp: write_file_def log_event_def split: if_splits option.splits node.splits)

lemma persist_prompts_requests:
  "persist_prompts ts scs w = Returns (scs', w') \<Longrightarrow> requests w' = requests w"
proof (induction scs arbitrary: w scs')
  case Nil
  then show ?case by simp
next
  case (Cons sc scs)
  then obtain w1 rest where
    a: "write_file (prompt_path (apply_transformers ts sc)) (Text (prompt (apply_transformers ts sc))) w
          = Returns w1"
    and b: "persist_prompts ts scs w1 = Returns (rest, w')"
    by (auto simp: Let_def obind_Returns omap_Returns write_text_def)
  then show ?case using Cons.IH [OF b] write_file_requests [OF a] by simp
qed

lemma submit_stub_requests:
  "submit_stub sc w = Returns (job, w') \<Longrightarrow> requests w' = requests w"
  by (auto simp: submit_stub_def utcnow_timestamp_def Let_def requests_log_event split: if_splits)

lemma poll_until_done_stub_result:
  assumes "poll_until_done_stub job w = Returns (job', w')"
  shows "status job' = ''done''" "video_path job' = Some [''renders'', job_id job' @ ''.mp4'']"
    "requests w' = requests w"
proof -
  obtain w1 where a: "mkdir_parents [''renders''] w = Returns w1"
    and b: "job' = job\<lparr>video_path := Some [''renders'', job_id job @ ''.mp4''], status := ''done''\<rparr>"
    and c: "w' = log_event (EvTerminal (job_id job) ''done'') w1"
    using assms by (auto simp: poll_until_done_stub_def obind_Returns split: if_splits)
  show "status job' = ''done''" using b by simp
  show "video_path job' = Some [''renders'', job_id job' @ ''.mp4'']" using b by simp
  show "requests w' = requests w"
    using mkdir_parents_requests [OF a] c by (simp add: requests_log_event)
qed

lemma process_jobs_stub_result:
  "process_jobs (StubVeoClient key) scs w = Returns (jobs, w') \<Longrightarrow>
   list_all (\<lambda>j. status j = ''done'' \<and> video_path j = Some [''renders'', job_id j @ ''.mp4'']) jobs
   \<and> requests w' = requests w"
proof (induction scs arbitrary: w jobs)
  case Nil
  then show ?case by simp
next
  case (Cons sc scs)
  then obtain job w1 job' w2 rest where
    a: "submit_stub sc w = Returns (job, w1)"
    and b: "poll_until_done_stub job w1 = Returns (job', w2)"
    and c: "process_jobs (StubVeoClient key) scs w2 = Returns (rest, w')"
    and d: "jobs = job' # rest"
    by (auto simp: obind_Returns omap_Returns)
  show ?case
    using Cons.IH [OF c] poll_until_done_stub_result [OF b] submit_stub_requests [OF a] d
    by simp
qed

text \<open>
  C9: whatever the inputs and the state of the output directory, when a run with the stub
  client returns, every job it returns has status \<open>done\<close> (so never \<open>failed\<close>) and a
  \<open>video_path\<close>, the manifest written lists these jobs, every entry with status \<open>done\<close>
  and a \<open>video_path\<close>, and the run has sent no request.
\<close>

theorem stub_run_jobs_all_done:
  assumes "run \<lparr>veo = StubVeoClient key, transformers = trs\<rparr> scripts d r template style w
             = Returns (jobs, w')"
  shows "(\<forall>j \<in> set jobs. status j = ''done'' \<and> status j \<noteq> ''failed''
            \<and> video_path j = Some [''renders'', job_id j @ ''.mp4''])
       \<and> fs w' [''manifest.json''] = Some (File (Json (make_manifest d r jobs)))
       \<and> (\<forall>e \<in> set (m_jobs (make_manifest d r jobs)).
            js_status e = ''done'' \<and> js_video_path e \<noteq> None)
       \<and> requests w' = requests w"
proof -
  obtain w1 w2 w3 scenes scenes' w4 w5 where
    1: "mkdir_parents [] w = Returns w1"
    and 2: "mkdir [''prompts''] w1 = Returns w2"
    and 3: "mkdir [''renders''] w2 = Returns w3"
    and 4: "build_scenes (ScenePlanner_init r style) scripts template = Returns scenes"
    and 5: "persist_prompts trs scenes w3 = Returns (scenes', w4)"
    and 6: "process_jobs (StubVeoClient key) scenes' w4 = Returns (jobs, w5)"
    and 7: "write_file [''manifest.json''] (Json (make_manifest d r jobs)) w5 = Returns w'"
    using assms unfolding run_def by (auto simp: obind_Returns)
  have j: "list_all (\<lambda>j. status j = ''done'' \<and> video_path j = Some [''renders'', job_id j @ ''.mp4''])
      jobs" and r6: "requests w5 = requests w4"
    using process_jobs_stub_result [OF 6] by simp_all
  have a: "\<forall>j \<in> set jobs. status j = ''done'' \<and> status j \<noteq> ''failed''
            \<and> video_path j = Some [''renders'', job_id j @ ''.mp4'']"
    using j by (auto simp: list_all_iff)
  have b: "fs w' [''manifest.json''] = Some (File (Json (make_manifest d r jobs)))"
    using 7 by (rule write_file_fs)
  have c: "\<forall>e \<in> set (m_jobs (make_manifest d r jobs)).
            js_status e = ''done'' \<and> js_video_path e \<noteq> None"
    using a by (auto simp: make_manifest_def summary_def)
  have "requests w' = requests w"
    using mkdir_parents_requests [OF 1] mkdir_requests [OF 2] mkdir_requests [OF 3]
      persist_prompts_requests [OF 5] r6 write_file_requests [OF 7]
    by simp
  with a b c show ?thesis by blast
qed

theorem stub_run_jobs_all_done_witness:
  "run STUB_PIPELINE SCRIPTS JUNE_1 RenderSpec_default DEFAULT_TEMPLATE ''whimsical_astrology'' WORLD0
     = Returns (stub_jobs (timeline WORLD0) (clock_reads WORLD0)
                (final_scenes [IdentityTransformer, CyberpunkPunchup] RenderSpec_default
                   ''whimsical_astrology'' SCRIPTS DEFAULT_TOKENS),
              stub_run_world JUNE_1 RenderSpec_default
                (final_scenes [IdentityTransformer, CyberpunkPunchup] RenderSpec_default
                   ''whimsical_astrology'' SCRIPTS DEFAULT_TOKENS) WORLD0)
   \<and> list_all (\<lambda>j. status j = ''done'' \<and> status j \<noteq> ''failed''
            \<and> video_path j = Some [''renders'', job_id j @ ''.mp4''])
       (stub_jobs (timeline WORLD0) (clock_reads WORLD0)
                (final_scenes [IdentityTransformer, CyberpunkPunchup] RenderSpec_default
                   ''whimsical_astrology'' SCRIPTS DEFAULT_TOKENS))
   \<and> requests (stub_run_world JUNE_1 RenderSpec_default
                (final_scenes [IdentityTransformer, CyberpunkPunchup] RenderSpec_default
                   ''whimsical_astrology'' SCRIPTS DEFAULT_TOKENS) WORLD0) = []
   \<and> length (stub_jobs (timeline WORLD0) (clock_reads WORLD0)
                (final_scenes [IdentityTransformer, CyberpunkPunchup] RenderSpec_default
                   ''whimsical_astrology'' SCRIPTS DEFAULT_TOKENS)) = 12"
proof -
  note t = stub_run_jobs_all_done [OF run_STUB_PIPELINE [unfolded STUB_PIPELINE_def]]
  have r: "requests WORLD0 = []" by (simp add: requests_def WORLD0_def)
  have l: "length (stub_jobs (timeline WORLD0) (clock_reads WORLD0)
                (final_scenes [IdentityTransformer, CyberpunkPunchup] RenderSpec_default
                   ''whimsical_astrology'' SCRIPTS DEFAULT_TOKENS)) = 12"
    by (simp add: stub_jobs_props final_scenes_def planned_scenes_def SCRIPTS_def
        generate_daily_horoscopes_def ZODIAC_SIGNS_def)
  show ?thesis using t r l run_STUB_PIPELINE by (simp add: list_all_iff)
qed

section \<open>Running twice\<close>

lemma stub_ids_ZODIAC_second:
  "stub_ids (\<lambda>k. 1000 + int k) 12 ZODIAC_SIGNS =
     [''veo_aries_1012'', ''veo_taurus_1013'', ''veo_gemini_1014'', ''veo_cancer_1015'',
      ''veo_leo_1016'', ''veo_virgo_1017'', ''veo_libra_1018'', ''veo_scorpio_1019'',
      ''veo_sagittarius_1020'', ''veo_capricorn_1021'', ''veo_aquarius_1022'',
      ''veo_pisces_1023'']"
proof -
  have n: "Suc (Suc (Suc (Suc (Suc (Suc (Suc (Suc (Suc (Suc (Suc (Suc 0))))))))))) = 12"
    by simp
  have "stub_ids (\<lambda>k. 1000 + int k)
          (Suc (Suc (Suc (Suc (Suc (Suc (Suc (Suc (Suc (Suc (Suc (Suc 0))))))))))))
          ZODIAC_SIGNS =
     [''veo_aries_1012'', ''veo_taurus_1013'', ''veo_gemini_1014'', ''veo_cancer_1015'',
      ''veo_leo_1016'', ''veo_virgo_1017'', ''veo_libra_1018'', ''veo_scorpio_1019'',
      ''veo_sagittarius_1020'', ''veo_capricorn_1021'', ''veo_aquarius_1022'',
      ''veo_pisces_1023'']"
    by (simp add: ZODIAC_SIGNS_def lower_def lower_char_def str_int_def str_nat.simps)
  then show ?thesis by (simp only: n)
qed

text \<open>
  C8: a second run with the same inputs into the directory the first run left writes the
  same bytes to the twelve prompt files, and returns the same jobs and writes the same
  manifest entries up to the job ids and the video paths made from them (the ids hold the
  clock reading of each submission).
\<close>

theorem run_twice_same_prompt_files:
  assumes "map fst scripts = ZODIAC_SIGNS"
    and "parse_text template = (ts, EndOfTemplate)"
    and "set (placeholders ts) \<subseteq> set recognized"
    and "ready w ZODIAC_SIGNS"
  shows "\<exists>ja w1 jb w2.
      run \<lparr>veo = StubVeoClient key, transformers = trs\<rparr> scripts d r template style w
        = Returns (ja, w1)
    \<and> run \<lparr>veo = StubVeoClient key, transformers = trs\<rparr> scripts d r template style w1
        = Returns (jb, w2)
    \<and> (\<forall>s \<in> set ZODIAC_SIGNS.
          (\<exists>p. fs w1 (prompt_file s) = Some (File (Text p)))
          \<and> fs w2 (prompt_file s) = fs w1 (prompt_file s))
    \<and> map without_id jb = map without_id ja
    \<and> map summary_without_id (m_jobs (make_manifest d r jb))
        = map summary_without_id (m_jobs (make_manifest d r ja))
    \<and> m_date (make_manifest d r jb) = m_date (make_manifest d r ja)
    \<and> m_aspect_ratio (make_manifest d r jb) = m_aspect_ratio (make_manifest d r ja)
    \<and> m_seconds (make_manifest d r jb) = m_seconds (make_manifest d r ja)"
proof -
  define scs where "scs = final_scenes trs r style scripts ts"
  define ja where "ja = stub_jobs (timeline w) (clock_reads w) scs"
  define w1 where "w1 = stub_run_world d r scs w"
  define jb where "jb = stub_jobs (timeline w1) (clock_reads w1) scs"
  define w2 where "w2 = stub_run_world d r scs w1"
  have sg: "map sign scs = ZODIAC_SIGNS" using assms(1) by (simp add: scs_def)
  have dist: "distinct (map sign scs)" using sg ZODIAC_SIGNS_distinct(1) by simp
  have 1: "run \<lparr>veo = StubVeoClient key, transformers = trs\<rparr> scripts d r template style w
        = Returns (ja, w1)"
    unfolding ja_def w1_def scs_def using assms by (rule run_stub_zodiac)
  have "ready w1 (map sign scs)" unfolding w1_def using dist by (rule ready_stub_run_world)
  then have rd: "ready w1 ZODIAC_SIGNS" by (simp only: sg)
  have 2: "run \<lparr>veo = StubVeoClient key, transformers = trs\<rparr> scripts d r template style w1
        = Returns (jb, w2)"
    unfolding jb_def w2_def scs_def using assms(1,2,3) rd by (rule run_stub_zodiac)
  have 3: "\<forall>s \<in> set ZODIAC_SIGNS.
          (\<exists>p. fs w1 (prompt_file s) = Some (File (Text p)))
          \<and> fs w2 (prompt_file s) = fs w1 (prompt_file s)"
  proof
    fix s assume "s \<in> set ZODIAC_SIGNS"
    then have "s \<in> sign ` set scs" using sg by (metis set_map)
    then obtain sc where sc: "sc \<in> set scs" "s = sign sc" by blast
    have "fs w1 (prompt_file s) = Some (File (Text (prompt sc)))"
      "fs w2 (prompt_file s) = Some (File (Text (prompt sc)))"
      unfolding w1_def w2_def sc(2) using dist sc(1) by (simp_all add: fs_stub_run_world_prompt)
    then show "(\<exists>p. fs w1 (prompt_file s) = Some (File (Text p)))
          \<and> fs w2 (prompt_file s) = fs w1 (prompt_file s)"
      by simp
  qed
  have 4: "map without_id jb = map without_id ja"
    by (simp add: ja_def jb_def without_id_stub_jobs)
  have e: "map summary_without_id (map summary js) = map summary (map without_id js)" for js
    by (simp add: summary_without_id_summary comp_def)
  have "map summary_without_id (map summary jb) = map summary_without_id (map summary ja)"
    unfolding e using 4 by (rule arg_cong)
  then have 5: "map summary_without_id (m_jobs (make_manifest d r jb))
        = map summary_without_id (m_jobs (make_manifest d r ja))"
    by (simp only: make_manifest_def manifest.simps)
  have 6: "m_date (make_manifest d r jb) = m_date (make_manifest d r ja)"
    "m_aspect_ratio (make_manifest d r jb) = m_aspect_ratio (make_manifest d r ja)"
    "m_seconds (make_manifest d r jb) = m_seconds (make_manifest d r ja)"
    by (simp_all add: make_manifest_def)
  from 1 2 3 4 5 6 show ?thesis by blast
qed

lemma second_run_STUB_PIPELINE:
  "obind (run STUB_PIPELINE SCRIPTS JUNE_1 RenderSpec_default DEFAULT_TEMPLATE
            ''whimsical_astrology'' WORLD0)
     (\<lambda>(ja, w1). omap (\<lambda>(jb, w2). map job_id jb)
        (run STUB_PIPELINE SCRIPTS JUNE_1 RenderSpec_default DEFAULT_TEMPLATE
            ''whimsical_astrology'' w1)) =
   Returns [''veo_aries_1012'', ''veo_taurus_1013'', ''veo_gemini_1014'', ''veo_cancer_1015'',
      ''veo_leo_1016'', ''veo_virgo_1017'', ''veo_libra_1018'', ''veo_scorpio_1019'',
      ''veo_sagittarius_1020'', ''veo_capricorn_1021'', ''veo_aquarius_1022'',
      ''veo_pisces_1023'']"
proof -
  define scs where "scs = final_scenes [IdentityTransformer, CyberpunkPunchup] RenderSpec_default
                   ''whimsical_astrology'' SCRIPTS DEFAULT_TOKENS"
  define w1 where "w1 = stub_run_world JUNE_1 RenderSpec_default scs WORLD0"
  have sg: "map sign scs = ZODIAC_SIGNS" by (simp add: scs_def SCRIPTS_def)
  have l: "length scs = 12" using sg ZODIAC_SIGNS_distinct(2) by (metis length_map)
  have "ready w1 (map sign scs)"
    unfolding w1_def using sg ZODIAC_SIGNS_distinct(1) by (intro ready_stub_run_world) simp
  then have rd: "ready w1 ZODIAC_SIGNS" by (simp only: sg)
  have a: "map fst SCRIPTS = ZODIAC_SIGNS" by (simp add: SCRIPTS_def)
  have b: "set (placeholders DEFAULT_TOKENS) \<subseteq> set recognized"
    by (simp add: placeholders_DEFAULT_TOKENS)
  have 2: "run STUB_PIPELINE SCRIPTS JUNE_1 RenderSpec_default DEFAULT_TEMPLATE
            ''whimsical_astrology'' w1 =
       Returns (stub_jobs (timeline w1) (clock_reads w1) scs,
                stub_run_world JUNE_1 RenderSpec_default scs w1)"
    unfolding STUB_PIPELINE_def scs_def
    using a parse_DEFAULT_TEMPLATE b rd by (rule run_stub_zodiac)
  have c: "timeline w1 = (\<lambda>k. 1000 + int k)" "clock_reads w1 = 12"
    by (simp_all add: w1_def clock_stub_run_world l WORLD0_def)
  have "map job_id (stub_jobs (timeline w1) (clock_reads w1) scs)
      = stub_ids (\<lambda>k. 1000 + int k) 12 ZODIAC_SIGNS"
    by (simp add: job_id_stub_jobs sg c)
  then show ?thesis
    using 2 by (simp add: run_STUB_PIPELINE scs_def [symmetric] w1_def [symmetric]
        stub_ids_ZODIAC_second)
qed

theorem run_twice_same_prompt_files_witness:
  "(\<exists>ja w1 jb w2.
      run STUB_PIPELINE SCRIPTS JUNE_1 RenderSpec_default DEFAULT_TEMPLATE
            ''whimsical_astrology'' WORLD0 = Returns (ja, w1)
    \<and> run STUB_PIPELINE SCRIPTS JUNE_1 RenderSpec_default DEFAULT_TEMPLATE
            ''whimsical_astrology'' w1 = Returns (jb, w2)
    \<and> (\<forall>s \<in> set ZODIAC_SIGNS.
          (\<exists>p. fs w1 (prompt_file s) = Some (File (Text p)))
          \<and> fs w2 (prompt_file s) = fs w1 (prompt_file s))
    \<and> map without_id jb = map without_id ja
    \<and> map summary_without_id (m_jobs (make_manifest JUNE_1 RenderSpec_default jb))
        = map summary_without_id (m_jobs (make_manifest JUNE_1 RenderSpec_default ja))
    \<and> m_date (make_manifest JUNE_1 RenderSpec_default jb)
        = m_date (make_manifest JUNE_1 RenderSpec_default ja)
    \<and> m_aspect_ratio (make_manifest JUNE_1 RenderSpec_default jb)
        = m_aspect_ratio (make_manifest JUNE_1 RenderSpec_default ja)
    \<and> m_seconds (make_manifest JUNE_1 RenderSpec_default jb)
        = m_seconds (make_manifest JUNE_1 RenderSpec_default ja))
   \<and> map fst SCRIPTS = ZODIAC_SIGNS
   \<and> omap (\<lambda>(jobs, w'). map job_id jobs)
       (run STUB_PIPELINE SCRIPTS JUNE_1 RenderSpec_default DEFAULT_TEMPLATE
          ''whimsical_astrology'' WORLD0) =
     Returns [''veo_aries_1000'', ''veo_taurus_1001'', ''veo_gemini_1002'', ''veo_cancer_1003'',
       ''veo_leo_1004'', ''veo_virgo_1005'', ''veo_libra_1006'', ''veo_scorpio_1007'',
       ''veo_sagittarius_1008'', ''veo_capricorn_1009'', ''veo_aquarius_1010'',
       ''veo_pisces_1011'']
   \<and> obind (run STUB_PIPELINE SCRIPTS JUNE_1 RenderSpec_default DEFAULT_TEMPLATE
            ''whimsical_astrology'' WORLD0)
       (\<lambda>(ja, w1). omap (\<lambda>(jb, w2). map job_id jb)
          (run STUB_PIPELINE SCRIPTS JUNE_1 RenderSpec_default DEFAULT_TEMPLATE
              ''whimsical_astrology'' w1)) =
     Returns [''veo_aries_1012'', ''veo_taurus_1013'', ''veo_gemini_1014'', ''veo_cancer_1015'',
       ''veo_leo_1016'', ''veo_virgo_1017'', ''veo_libra_1018'', ''veo_scorpio_1019'',
       ''veo_sagittarius_1020'', ''veo_capricorn_1021'', ''veo_aquarius_1022'',
       ''veo_pisces_1023'']"
proof -
  have a: "map fst SCRIPTS = ZODIAC_SIGNS" by (simp add: SCRIPTS_def)
  have b: "set (placeholders DEFAULT_TOKENS) \<subseteq> set recognized"
    by (simp add: placeholders_DEFAULT_TOKENS)
  show ?thesis
    using run_twice_same_prompt_files [OF a parse_DEFAULT_TEMPLATE b ready_WORLD0,
        of "''demo-key''" "[IdentityTransformer, CyberpunkPunchup]" JUNE_1 RenderSpec_default
           "''whimsical_astrology''"] a job_ids_STUB_PIPELINE second_run_STUB_PIPELINE
    unfolding STUB_PIPELINE_def by blast
qed

section \<open>The transformer chain\<close>

lemma apply_transformers_snoc:
  "apply_transformers (ts @ [t]) sc =
     (apply_transformers ts sc)\<lparr>prompt := t (prompt (apply_transformers ts sc))
                                            (apply_transformers ts sc)\<rparr>"
  by (induction ts arbitrary: sc) auto

lemma apply_transformers_only_prompt:
  "apply_transformers ts sc = sc\<lparr>prompt := prompt (apply_transformers ts sc)\<rparr>"
  by (induction ts arbitrary: sc) auto

lemma foldl_ignores:
  "\<forall>t \<in> set ts. ignores_scene_prompt t \<Longrightarrow>
   foldl (\<lambda>p t. t p (sc\<lparr>prompt := q\<rparr>)) acc ts = foldl (\<lambda>p t. t p sc) acc ts"
  by (induction ts arbitrary: acc) (auto simp: ignores_scene_prompt_def)

lemma apply_transformers_ignoring:
  "\<forall>t \<in> set ts. ignores_scene_prompt t \<Longrightarrow> apply_transformers ts sc = chain_as_specified ts sc"
proof (induction ts arbitrary: sc)
  case Nil
  then show ?case by (simp add: chain_as_specified_def)
next
  case (Cons t ts)
  let ?sc1 = "sc\<lparr>prompt := t (prompt sc) sc\<rparr>"
  have rest: "\<forall>t \<in> set ts. ignores_scene_prompt t" using Cons.prems by simp
  have "apply_transformers (t # ts) sc = chain_as_specified ts ?sc1"
    using Cons.IH [OF rest] by simp
  also have "\<dots> = sc\<lparr>prompt := foldl (\<lambda>p t. t p sc) (t (prompt sc) sc) ts\<rparr>"
    using foldl_ignores [OF rest, where sc = sc and q = "t (prompt sc) sc"
        and acc = "t (prompt sc) sc"]
    by (simp add: chain_as_specified_def)
  finally show ?case by (simp add: chain_as_specified_def)
qed

lemma ignores_builtin:
  "ignores_scene_prompt IdentityTransformer" "ignores_scene_prompt CyberpunkPunchup"
  by (simp_all add: ignores_scene_prompt_def IdentityTransformer_def CyberpunkPunchup_def)

text \<open>
  C6, as stated, fails: the chain assigns every intermediate result to \<open>scene.prompt\<close>
  before it calls the next transformer, so a transformer that reads \<open>scene.prompt\<close> sees
  the output of the one before it. For \<open>A = CyberpunkPunchup\<close> and \<open>B\<close> appending
  \<open>scene.prompt\<close>, the chain \<open>[A, B]\<close> differs from \<open>B(A(prompt, scene), scene)\<close> and
  from the chain as specified.
\<close>

theorem chain_differs_from_manual_application:
  "prompt (apply_transformers [CyberpunkPunchup, AppendScenePrompt] BASE_SCENE) =
     ''base Add neon signage in the distance, subtle rain streaks, and UI scanlines.'' @
     ''base Add neon signage in the distance, subtle rain streaks, and UI scanlines.''
   \<and> AppendScenePrompt (CyberpunkPunchup (prompt BASE_SCENE) BASE_SCENE) BASE_SCENE =
     ''base Add neon signage in the distance, subtle rain streaks, and UI scanlines.'' @
     ''base''
   \<and> prompt (apply_transformers [CyberpunkPunchup, AppendScenePrompt] BASE_SCENE) \<noteq>
     AppendScenePrompt (CyberpunkPunchup (prompt BASE_SCENE) BASE_SCENE) BASE_SCENE
   \<and> apply_transformers [CyberpunkPunchup, AppendScenePrompt] BASE_SCENE \<noteq>
     chain_as_specified [CyberpunkPunchup, AppendScenePrompt] BASE_SCENE"
  by (simp add: CyberpunkPunchup_def AppendScenePrompt_def BASE_SCENE_def chain_as_specified_def)

text \<open>
  C6, amended: the chain applies the transformers in configured order, passing each the
  current prompt and the scene whose \<open>prompt\<close> field already holds that prompt, and
  changes no other field of the scene. So \<open>[A, B]\<close> yields \<open>B(A(p, scene), scene')\<close> where
  \<open>scene'\<close> is the scene with prompt \<open>A(p, scene)\<close>; when \<open>B\<close> does not read \<open>scene.prompt\<close>
  this is \<open>B(A(p, scene), scene)\<close>, and for transformers that do not read \<open>scene.prompt\<close>
  (as both built-in ones) the chain is the chain as specified.
\<close>

theorem apply_transformers_in_order:
  "apply_transformers (ts @ [t]) sc =
     (apply_transformers ts sc)\<lparr>prompt := t (prompt (apply_transformers ts sc))
                                            (apply_transformers ts sc)\<rparr>
   \<and> apply_transformers ts sc = sc\<lparr>prompt := prompt (apply_transformers ts sc)\<rparr>
   \<and> prompt (apply_transformers [A, B] sc) = B (A (prompt sc) sc) (sc\<lparr>prompt := A (prompt sc) sc\<rparr>)
   \<and> (ignores_scene_prompt B \<longrightarrow>
        prompt (apply_transformers [A, B] sc) = B (A (prompt sc) sc) sc)
   \<and> ((\<forall>t \<in> set ts. ignores_scene_prompt t) \<longrightarrow>
        apply_transformers ts sc = chain_as_specified ts sc)"
proof (intro conjI impI)
  show "apply_transformers (ts @ [t]) sc =
     (apply_transformers ts sc)\<lparr>prompt := t (prompt (apply_transformers ts sc))
                                            (apply_transformers ts sc)\<rparr>"
    by (rule apply_transformers_snoc)
  show "apply_transformers ts sc = sc\<lparr>prompt := prompt (apply_transformers ts sc)\<rparr>"
    by (rule apply_transformers_only_prompt)
  show "prompt (apply_transformers [A, B] sc) = B (A (prompt sc) sc) (sc\<lparr>prompt := A (prompt sc) sc\<rparr>)"
    by simp
  show "prompt (apply_transformers [A, B] sc) = B (A (prompt sc) sc) sc"
    if "ignores_scene_prompt B"
    using that by (simp add: ignores_scene_prompt_def)
  show "apply_transformers ts sc = chain_as_specified ts sc"
    if "\<forall>t \<in> set ts. ignores_scene_prompt t"
    using that by (rule apply_transformers_ignoring)
qed

theorem apply_transformers_in_order_witness:
  "ignores_scene_prompt IdentityTransformer \<and> ignores_scene_prompt CyberpunkPunchup
   \<and> prompt (apply_transformers [IdentityTransformer, CyberpunkPunchup] BASE_SCENE) =
       CyberpunkPunchup (IdentityTransformer (prompt BASE_SCENE) BASE_SCENE) BASE_SCENE
   \<and> apply_transformers [IdentityTransformer, CyberpunkPunchup] BASE_SCENE =
       chain_as_specified [IdentityTransformer, CyberpunkPunchup] BASE_SCENE
   \<and> prompt (apply_transformers [IdentityTransformer, CyberpunkPunchup] BASE_SCENE) =
       ''base Add neon signage in the distance, subtle rain streaks, and UI scanlines.''"
proof -
  note t = apply_transformers_in_order [of "[IdentityTransformer, CyberpunkPunchup]"
      CyberpunkPunchup BASE_SCENE IdentityTransformer CyberpunkPunchup]
  have a: "\<forall>t \<in> set [IdentityTransformer, CyberpunkPunchup]. ignores_scene_prompt t"
    using ignores_builtin by simp
  have 1: "prompt (apply_transformers [IdentityTransformer, CyberpunkPunchup] BASE_SCENE) =
       CyberpunkPunchup (IdentityTransformer (prompt BASE_SCENE) BASE_SCENE) BASE_SCENE"
    using t ignores_builtin(2) by blast
  have 2: "apply_transformers [IdentityTransformer, CyberpunkPunchup] BASE_SCENE =
       chain_as_specified [IdentityTransformer, CyberpunkPunchup] BASE_SCENE"
    using t a by blast
  have 3: "prompt (apply_transformers [IdentityTransformer, CyberpunkPunchup] BASE_SCENE) =
       ''base Add neon signage in the distance, subtle rain streaks, and UI scanlines.''"
    unfolding 1 by (simp add: CyberpunkPunchup_def IdentityTransformer_def BASE_SCENE_def)
  from ignores_builtin 1 2 3 show ?thesis by blast
qed

section \<open>The two client classes\<close>





lemma main_stub:
  "main a env today scripts w =
     omap (\<lambda>(jobs, w'). (length jobs, w'))
       (run \<lparr>veo = StubVeoClient (case env ''VEO_API_KEY'' of None \<Rightarrow> ''demo-key'' | Some v \<Rightarrow> v),
             transformers = build_transformers a\<rparr>
          scripts (case arg_date a of Some x \<Rightarrow> x | None \<Rightarrow> today)
          (RenderSpec_default\<lparr>aspect_ratio := arg_aspect a, fps := arg_fps a\<rparr>)
          DEFAULT_TEMPLATE (arg_style a) w)"
  by (simp add: main_def VeoClient_init_def truthy_def HoroscopeVeoPipeline_init_def
      build_transformers_def Let_def)

text \<open>
  C3, as stated, fails: \<open>main\<close> constructs the second \<open>VeoClient\<close> class, whose
  constructor falls back to \<open>"demo-key"\<close> when \<open>VEO_API_KEY\<close> is absent. With no
  \<open>VEO_API_KEY\<close> in the environment the client is constructed, the run completes with
  twelve jobs and the twelve prompt files and the manifest are written.
\<close>

theorem main_completes_without_api_key:
  "VeoClient_init None (\<lambda>v. None) = Returns (StubVeoClient ''demo-key'')
   \<and> omap (\<lambda>(n, w'). (n, written_paths (trace w')))
       (main ARGS (\<lambda>v. None) JUNE_1 SCRIPTS WORLD0)
     = Returns (12, map prompt_file ZODIAC_SIGNS @ [[''manifest.json'']])"
proof -
  define r where "r = RenderSpec_default\<lparr>aspect_ratio := ''9:16'', fps := 24\<rparr>"
  define scs where "scs = final_scenes [IdentityTransformer] r ''whimsical_astrology'' SCRIPTS
      DEFAULT_TOKENS"
  have 1: "VeoClient_init None (\<lambda>v. None) = Returns (StubVeoClient ''demo-key'')"
    by (simp add: VeoClient_init_def truthy_def)
  have a: "map fst SCRIPTS = ZODIAC_SIGNS" by (simp add: SCRIPTS_def)
  have b: "set (placeholders DEFAULT_TOKENS) \<subseteq> set recognized"
    by (simp add: placeholders_DEFAULT_TOKENS)
  have sg: "map sign scs = ZODIAC_SIGNS" by (simp add: scs_def a)
  have run: "run \<lparr>veo = StubVeoClient ''demo-key'', transformers = [IdentityTransformer]\<rparr>
      SCRIPTS JUNE_1 r DEFAULT_TEMPLATE ''whimsical_astrology'' WORLD0 =
      Returns (stub_jobs (timeline WORLD0) (clock_reads WORLD0) scs,
               stub_run_world JUNE_1 r scs WORLD0)"
    unfolding scs_def using a parse_DEFAULT_TEMPLATE b ready_WORLD0 by (rule run_stub_zodiac)
  have m: "main ARGS (\<lambda>v. None) JUNE_1 SCRIPTS WORLD0 =
      Returns (length (stub_jobs (timeline WORLD0) (clock_reads WORLD0) scs),
               stub_run_world JUNE_1 r scs WORLD0)"
    using run by (simp add: main_stub ARGS_def build_transformers_def r_def)
  have l: "length (stub_jobs (timeline WORLD0) (clock_reads WORLD0) scs) = 12"
    using sg ZODIAC_SIGNS_distinct(2) by (metis stub_jobs_props(2) length_map)
  have "trace WORLD0 = []" by (simp add: WORLD0_def)
  then have "written_paths (trace (stub_run_world JUNE_1 r scs WORLD0)) =
      written_paths (new_events WORLD0 (stub_run_world JUNE_1 r scs WORLD0))"
    by (simp add: new_events_def)
  then have w: "written_paths (trace (stub_run_world JUNE_1 r scs WORLD0)) =
      map prompt_file ZODIAC_SIGNS @ [[''manifest.json'']]"
    by (simp only: written_paths_stub_run_world sg)
  show ?thesis using 1 m l w by simp
qed

text \<open>
  C3, amended: when no key is passed and \<open>VEO_API_KEY\<close> is absent from the environment,
  or set and empty, the constructor of the first \<open>VeoClient\<close> class raises \<open>RuntimeError\<close>
  (a constructor touches no file), while the constructor of the second class, the one
  \<open>main\<close> calls, returns a client: with the key \<open>demo-key\<close> when the variable is absent,
  with the empty key when it is set and empty. \<open>main\<close>, given the scripts of the twelve
  signs and an output directory with nothing in the way, then runs to its end: it
  reports twelve completed jobs, and the files it has written are the twelve prompt
  files and the manifest, which lists twelve jobs.
\<close>

theorem VeoClient_init_without_key:
  assumes "\<not> truthy api_key" and "\<not> truthy (env ''VEO_API_KEY'')"
    and "map fst scripts = ZODIAC_SIGNS" and "ready w ZODIAC_SIGNS"
  shows "VeoClient_init_first api_key env srv polls = Raises (RuntimeError VEO_API_KEY_MISSING)
     \<and> (env ''VEO_API_KEY'' = None \<longrightarrow>
          VeoClient_init api_key env = Returns (StubVeoClient ''demo-key''))
     \<and> (env ''VEO_API_KEY'' = Some [] \<longrightarrow>
          VeoClient_init api_key env = Returns (StubVeoClient []))
     \<and> (\<exists>w' m. main a env today scripts w = Returns (12, w')
          \<and> written_paths (new_events w w') = map prompt_file ZODIAC_SIGNS @ [[''manifest.json'']]
          \<and> (\<forall>s \<in> set ZODIAC_SIGNS. \<exists>p. fs w' (prompt_file s) = Some (File (Text p)))
          \<and> fs w' [''manifest.json''] = Some (File (Json m))
          \<and> length (m_jobs m) = 12)"
proof -
  define r where "r = RenderSpec_default\<lparr>aspect_ratio := arg_aspect a, fps := arg_fps a\<rparr>"
  define d where "d = (case arg_date a of Some x \<Rightarrow> x | None \<Rightarrow> today)"
  define scs where "scs = final_scenes (build_transformers a) r (arg_style a) scripts DEFAULT_TOKENS"
  define jobs where "jobs = stub_jobs (timeline w) (clock_reads w) scs"
  define w' where "w' = stub_run_world d r scs w"
  have 1: "VeoClient_init_first api_key env srv polls = Raises (RuntimeError VEO_API_KEY_MISSING)"
    using assms(1,2) by (simp add: VeoClient_init_first_def)
  have 2: "env ''VEO_API_KEY'' = None \<longrightarrow>
          VeoClient_init api_key env = Returns (StubVeoClient ''demo-key'')"
    using assms(1) by (simp add: VeoClient_init_def)
  have 3: "env ''VEO_API_KEY'' = Some [] \<longrightarrow>
          VeoClient_init api_key env = Returns (StubVeoClient [])"
    using assms(1) by (simp add: VeoClient_init_def)
  have b: "set (placeholders DEFAULT_TOKENS) \<subseteq> set recognized"
    by (simp add: placeholders_DEFAULT_TOKENS)
  have sg: "map sign scs = ZODIAC_SIGNS" using assms(3) by (simp add: scs_def)
  have run: "run \<lparr>veo = StubVeoClient key, transformers = build_transformers a\<rparr>
      scripts d r DEFAULT_TEMPLATE (arg_style a) w = Returns (jobs, w')" for key
    unfolding jobs_def w'_def scs_def
    using assms(3) parse_DEFAULT_TEMPLATE b assms(4) by (rule run_stub_zodiac)
  have "length scs = 12" using sg ZODIAC_SIGNS_distinct(2) by (metis length_map)
  then have l: "length jobs = 12" by (simp add: jobs_def stub_jobs_props)
  have m: "main a env today scripts w = Returns (12, w')"
    using run l by (simp add: main_stub r_def d_def)
  have p: "written_paths (new_events w w') = map prompt_file ZODIAC_SIGNS @ [[''manifest.json'']]"
    by (simp only: w'_def written_paths_stub_run_world sg)
  have ds: "distinct (map sign scs)" using sg ZODIAC_SIGNS_distinct(1) by simp
  have f: "\<forall>s \<in> set ZODIAC_SIGNS. \<exists>p. fs w' (prompt_file s) = Some (File (Text p))"
  proof
    fix s assume "s \<in> set ZODIAC_SIGNS"
    then have "s \<in> set (map sign scs)" by (simp only: sg)
    then obtain sc where sc: "sc \<in> set scs" "sign sc = s" by auto
    have "fs w' (prompt_file (sign sc)) = Some (File (Text (prompt sc)))"
      unfolding w'_def using ds sc(1) by (rule fs_stub_run_world_prompt)
    then show "\<exists>p. fs w' (prompt_file s) = Some (File (Text p))" using sc(2) by blast
  qed
  have j: "fs w' [''manifest.json''] = Some (File (Json (make_manifest d r jobs)))"
    by (simp add: w'_def jobs_def fs_stub_run_world_manifest)
  have n: "length (m_jobs (make_manifest d r jobs)) = 12" using l by (simp add: make_manifest_def)
  from 1 2 3 m p f j n show ?thesis by blast
qed

theorem VeoClient_init_without_key_witness:
  "VeoClient_init_first None (\<lambda>v. None) SAMPLE_REMOTE 10 = Raises (RuntimeError VEO_API_KEY_MISSING)
   \<and> VeoClient_init None (\<lambda>v. None) = Returns (StubVeoClient ''demo-key'')
   \<and> (\<exists>w' m. main ARGS (\<lambda>v. None) JUNE_1 SCRIPTS WORLD0 = Returns (12, w')
        \<and> written_paths (new_events WORLD0 w') = map prompt_file ZODIAC_SIGNS @ [[''manifest.json'']]
        \<and> (\<forall>s \<in> set ZODIAC_SIGNS. \<exists>p. fs w' (prompt_file s) = Some (File (Text p)))
        \<and> fs w' [''manifest.json''] = Some (File (Json m))
        \<and> length (m_jobs m) = 12)
   \<and> VeoClient_init_first (Some []) ((\<lambda>v. None)(''VEO_API_KEY'' \<mapsto> [])) SAMPLE_REMOTE 10
       = Raises (RuntimeError VEO_API_KEY_MISSING)
   \<and> VeoClient_init (Some []) ((\<lambda>v. None)(''VEO_API_KEY'' \<mapsto> [])) = Returns (StubVeoClient [])"
proof -
  have n: "\<not> truthy None" "\<not> truthy ((\<lambda>v. None) ''VEO_API_KEY'')" by (simp_all add: truthy_def)
  have e: "\<not> truthy (Some [])" "\<not> truthy (((\<lambda>v. None)(''VEO_API_KEY'' \<mapsto> [])) ''VEO_API_KEY'')"
    by (simp_all add: truthy_def)
  have s: "map fst SCRIPTS = ZODIAC_SIGNS" by (simp add: SCRIPTS_def)
  note t1 = VeoClient_init_without_key [where api_key = None and env = "\<lambda>v. None"
      and srv = SAMPLE_REMOTE and polls = 10 and a = ARGS and today = JUNE_1, OF n s ready_WORLD0]
  note t2 = VeoClient_init_without_key [where api_key = "Some []"
      and env = "(\<lambda>v. None)(''VEO_API_KEY'' \<mapsto> [])" and srv = SAMPLE_REMOTE and polls = 10
      and a = ARGS and today = JUNE_1, OF e s ready_WORLD0]
  have k: "((\<lambda>v. None)(''VEO_API_KEY'' \<mapsto> [])) ''VEO_API_KEY'' = Some []" by simp
  from t1 have a: "VeoClient_init_first None (\<lambda>v. None) SAMPLE_REMOTE 10
      = Raises (RuntimeError VEO_API_KEY_MISSING)"
    and b: "VeoClient_init None (\<lambda>v. None) = Returns (StubVeoClient ''demo-key'')"
    and c: "\<exists>w' m. main ARGS (\<lambda>v. None) JUNE_1 SCRIPTS WORLD0 = Returns (12, w')
        \<and> written_paths (new_events WORLD0 w') = map prompt_file ZODIAC_SIGNS @ [[''manifest.json'']]
        \<and> (\<forall>s \<in> set ZODIAC_SIGNS. \<exists>p. fs w' (prompt_file s) = Some (File (Text p)))
        \<and> fs w' [''manifest.json''] = Some (File (Json m))
        \<and> length (m_jobs m) = 12"
    by blast+
  from t2 k have d: "VeoClient_init_first (Some []) ((\<lambda>v. None)(''VEO_API_KEY'' \<mapsto> [])) SAMPLE_REMOTE 10
       = Raises (RuntimeError VEO_API_KEY_MISSING)"
    and f: "VeoClient_init (Some []) ((\<lambda>v. None)(''VEO_API_KEY'' \<mapsto> [])) = Returns (StubVeoClient [])"
    by blast+
  from a b c d f show ?thesis by blast
qed

end
